theory Spec2Isabelle
  imports Complex_Main
begin

section \<open>Shared vocabulary\<close>

text \<open>
  Identifiers (UUIDs) are opaque strings. Timestamps and durations are integers
  (microseconds). An exception raised by a handler is a value on the left of a sum; the
  handler's normal return value is on the right. \<open>HTTPException code detail\<close> is the
  exception FastAPI turns into the response with that status code; every other exception
  that leaves a handler is unhandled there. \<open>OSError\<close> carries the text \<open>str(e)\<close> of the
  error. Every handler that touches the database takes the tables it reads and returns the
  tables it leaves behind.
\<close>

type_synonym uuid = string
type_synonym timestamp = int

datatype py_exception =
  HTTPException nat string
| InvalidTokenError
| ValueError
| ValidationError
| ZeroDivisionError
| OverflowError
| DataError
| OSError string

section \<open>Python floats\<close>

text \<open>
  A Python \<open>float\<close> is an IEEE 754 binary64 number: a finite value, an infinity or NaN. A
  finite value is the rational it denotes (the sign of a zero is not kept; no result below
  depends on it). \<open>round_double\<close> is the rounding of a real result to the nearest double,
  ties to the even significand. The finite doubles are the numbers \<open>m * 2 ^ e\<close> with
  \<open>\<bar>m\<bar> < 2 ^ 53\<close> and \<open>-1074 \<le> e \<le> 971\<close>; a result that rounds to \<open>2 ^ 1024\<close> or more
  overflows to an infinity.
\<close>

datatype py_float = Finite rat | PosInf | NegInf | NaN

function bit_length :: "int \<Rightarrow> int" where
  "bit_length n = (if n \<le> 0 then 0 else 1 + bit_length (n div 2))"
  by pat_completeness auto
termination
  by (relation "measure nat") auto

declare bit_length.simps [simp del]

definition pow2 :: "int \<Rightarrow> rat" where
  "pow2 e = (if 0 \<le> e then 2 ^ nat e else 1 / 2 ^ nat (- e))"

text \<open>For \<open>0 < x\<close>, the exponent \<open>e\<close> with \<open>2 ^ e \<le> x < 2 ^ (e + 1)\<close>.\<close>

definition exponent :: "rat \<Rightarrow> int" where
  "exponent x =
     (let e = bit_length (fst (quotient_of x)) - bit_length (snd (quotient_of x))
      in if pow2 e \<le> x then e else e - 1)"

definition round_half_even :: "rat \<Rightarrow> int" where
  "round_half_even x =
     (let n = \<lfloor>x\<rfloor>; d = x - of_int n
      in if d < 1 / 2 then n
         else if 1 / 2 < d then n + 1
         else if even n then n else n + 1)"

definition round_double :: "rat \<Rightarrow> py_float" where
  "round_double x =
     (if x = 0 then Finite 0
      else
        (let e = max (exponent \<bar>x\<bar> - 52) (- 1074);
             m = round_half_even (\<bar>x\<bar> / pow2 e);
             v = of_int m * pow2 e
         in if 971 < e \<or> (e = 971 \<and> 2 ^ 53 \<le> m) then (if 0 < x then PosInf else NegInf)
            else Finite (if 0 < x then v else - v)))"

text \<open>
  The conversion of an \<open>int\<close> operand of a float operation: correctly rounded, and
  \<open>OverflowError\<close> when the integer is too large.
\<close>

definition float_of_int :: "int \<Rightarrow> py_exception + py_float" where
  "float_of_int n =
     (case round_double (of_int n) of
        Finite v \<Rightarrow> Inr (Finite v)
      | _ \<Rightarrow> Inl OverflowError)"

fun float_add :: "py_float \<Rightarrow> py_float \<Rightarrow> py_float" where
  "float_add (Finite x) (Finite y) = round_double (x + y)"
| "float_add NaN b = NaN"
| "float_add a NaN = NaN"
| "float_add PosInf NegInf = NaN"
| "float_add NegInf PosInf = NaN"
| "float_add PosInf b = PosInf"
| "float_add NegInf b = NegInf"
| "float_add a PosInf = PosInf"
| "float_add a NegInf = NegInf"

text \<open>\<open>a / b\<close> on floats: \<open>ZeroDivisionError\<close> for a zero divisor.\<close>

fun float_truediv :: "py_float \<Rightarrow> py_float \<Rightarrow> py_exception + py_float" where
  "float_truediv a (Finite y) =
     (if y = 0 then Inl ZeroDivisionError
      else case a of
             Finite x \<Rightarrow> Inr (round_double (x / y))
           | PosInf \<Rightarrow> Inr (if 0 < y then PosInf else NegInf)
           | NegInf \<Rightarrow> Inr (if 0 < y then NegInf else PosInf)
           | NaN \<Rightarrow> Inr NaN)"
| "float_truediv a NaN = Inr NaN"
| "float_truediv (Finite x) b = Inr (Finite 0)"
| "float_truediv a b = Inr NaN"

text \<open>\<open>int(x)\<close> on a float truncates towards zero; it raises \<open>OverflowError\<close> for an
  infinity and \<open>ValueError\<close> for NaN.\<close>

definition trunc :: "rat \<Rightarrow> int" where
  "trunc x = (if 0 \<le> x then \<lfloor>x\<rfloor> else \<lceil>x\<rceil>)"

fun py_int :: "py_float \<Rightarrow> py_exception + int" where
  "py_int (Finite x) = Inr (trunc x)"
| "py_int NaN = Inl ValueError"
| "py_int a = Inl OverflowError"

section \<open>Execution-result callback (backend/endpoints/functions.py)\<close>

text \<open>
  The columns of \<open>functions\<close>, \<open>function_executions\<close> and \<open>function_logs\<close> that
  \<open>receive_execution_result\<close> reads or writes. \<open>avg_execution_time_ms\<close> is nullable; the
  counters are not. \<open>execution_time_ms\<close> is a Python float that has passed the request
  model (\<open>ge=0\<close>).

  The tables' definitions are not part of the source. What they accept is a parameter, in
  \<open>functions_env\<close>: \<open>fits_column c v\<close> says that the integer column \<open>c\<close> accepts the value
  \<open>v\<close>, \<open>accepts_text\<close> that a text column accepts a string; a statement with a value
  that is not accepted raises \<open>DataError\<close>. \<open>exc_text e\<close> is \<open>str(e)\<close>.
\<close>

record function_row =
  fn_id :: uuid
  fn_name :: string
  fn_owner_id :: uuid
  execution_count :: int
  execution_success_count :: int
  execution_error_count :: int
  avg_execution_time_ms :: "int option"
  last_executed_at :: "timestamp option"

record execution_row =
  ex_id :: uuid
  ex_function_id :: uuid
  ex_user_id :: uuid
  ex_trigger_type :: string
  ex_status :: string
  ex_duration_ms :: int

record log_row =
  lg_execution_id :: uuid
  lg_function_id :: uuid
  lg_log_level :: string
  lg_message :: string

record functions_db =
  functions_tbl :: "function_row list"
  function_executions :: "execution_row list"
  function_logs :: "log_row list"

record functions_env =
  fits_column :: "string \<Rightarrow> int \<Rightarrow> bool"
  accepts_text :: "string \<Rightarrow> bool"
  exc_text :: "py_exception \<Rightarrow> string"

record execution_result_request =
  rq_success :: bool
  rq_logs :: "string list"
  rq_execution_time_ms :: py_float
  rq_delivery_id :: "string option"

datatype callback_response =
  Received_warning string
| Received_execution uuid

definition isascii :: "string \<Rightarrow> bool" where
  "isascii s = list_all (\<lambda>c. of_char c < (128::nat)) s"

fun startswith :: "string \<Rightarrow> string \<Rightarrow> bool" where
  "startswith s [] = True"
| "startswith [] (p # ps) = False"
| "startswith (c # cs) (p # ps) = (c = p \<and> startswith cs ps)"

definition log_level_of :: "string \<Rightarrow> string" where
  "log_level_of line =
     (if startswith line ''[ERROR]'' then ''error''
      else if startswith line ''[WARN]'' then ''warn''
      else ''info'')"

text \<open>
  The new running average, as the handler computes it. A stored average of NULL or 0 is
  replaced by the truncated new time. Otherwise \<open>total_time\<close> is an exact integer product;
  \<open>total_time + execution_time_ms\<close> converts it to a float and adds; the division converts
  \<open>new_count\<close> to a float and divides; \<open>int\<close> truncates the quotient.
\<close>

definition new_avg_of :: "function_row \<Rightarrow> py_float \<Rightarrow> py_exception + int" where
  "new_avg_of fn_record execution_time_ms =
     (let new_count = execution_count fn_record + 1;
          old_avg = (case avg_execution_time_ms fn_record of None \<Rightarrow> 0 | Some a \<Rightarrow> a)
      in if old_avg = 0 then py_int execution_time_ms
         else
           (let total_time = old_avg * execution_count fn_record
            in case float_of_int total_time of
                 Inl e \<Rightarrow> Inl e
               | Inr total_time_f \<Rightarrow>
                   (case float_of_int new_count of
                      Inl e \<Rightarrow> Inl e
                    | Inr new_count_f \<Rightarrow>
                        (case float_truediv (float_add total_time_f execution_time_ms) new_count_f of
                           Inl e \<Rightarrow> Inl e
                         | Inr new_avg_f \<Rightarrow> py_int new_avg_f))))"

definition set_metrics ::
  "function_row \<Rightarrow> int \<Rightarrow> int \<Rightarrow> int \<Rightarrow> int \<Rightarrow> timestamp \<Rightarrow> function_row" where
  "set_metrics r new_count new_success new_error new_avg now =
     r\<lparr>execution_count := new_count,
       execution_success_count := new_success,
       execution_error_count := new_error,
       avg_execution_time_ms := Some new_avg,
       last_executed_at := Some now\<rparr>"

text \<open>
  The values the two statements and the log inserts are given, or the first exception
  raised on the way: by the computation of the average, by the \<open>UPDATE\<close>, by
  \<open>int(result.execution_time_ms)\<close> in the parameters of the \<open>INSERT\<close>, by the \<open>INSERT\<close>, by
  the insert of a log line.
\<close>

definition execution_values ::
  "functions_env \<Rightarrow> function_row \<Rightarrow> execution_result_request
     \<Rightarrow> py_exception + (int \<times> int \<times> int \<times> int \<times> int)" where
  "execution_values env fn_record result =
     (let new_count = execution_count fn_record + 1;
          new_success = execution_success_count fn_record + (if rq_success result then 1 else 0);
          new_error = execution_error_count fn_record + (if rq_success result then 0 else 1)
      in case new_avg_of fn_record (rq_execution_time_ms result) of
           Inl e \<Rightarrow> Inl e
         | Inr new_avg \<Rightarrow>
             if fits_column env ''execution_count'' new_count
                \<and> fits_column env ''execution_success_count'' new_success
                \<and> fits_column env ''execution_error_count'' new_error
                \<and> fits_column env ''avg_execution_time_ms'' new_avg
             then
               (case py_int (rq_execution_time_ms result) of
                  Inl e \<Rightarrow> Inl e
                | Inr duration_ms \<Rightarrow>
                    if fits_column env ''duration_ms'' duration_ms
                       \<and> list_all (accepts_text env) (rq_logs result)
                    then Inr (new_count, new_success, new_error, new_avg, duration_ms)
                    else Inl DataError)
             else Inl DataError)"

text \<open>
  The handler. Every exception raised inside its \<open>try\<close> block is answered 400 with the
  text of the exception, after a rollback: the tables are what they were.
\<close>

definition receive_execution_result ::
  "functions_env \<Rightarrow> functions_db \<Rightarrow> string \<Rightarrow> execution_result_request \<Rightarrow> timestamp \<Rightarrow> uuid
     \<Rightarrow> (py_exception + callback_response) \<times> functions_db" where
  "receive_execution_result env db function_name result now execution_id =
     (if function_name = [] \<or> length function_name > 255 then
        (Inl (HTTPException 404 ''Function not found''), db)
      else if CHR 0x00 \<in> set function_name \<or> \<not> isascii function_name then
        (Inl (HTTPException 404 ''Function not found''), db)
      else
        case find (\<lambda>r. fn_name r = function_name) (functions_tbl db) of
          None \<Rightarrow> (Inr (Received_warning ''Function not found''), db)
        | Some fn_record \<Rightarrow>
            (case execution_values env fn_record result of
               Inl e \<Rightarrow>
                 (Inl (HTTPException 400
                    (''Failed to process execution result: '' @ exc_text env e)), db)
             | Inr (new_count, new_success, new_error, new_avg, duration_ms) \<Rightarrow>
                 (Inr (Received_execution execution_id),
                  db\<lparr>
                    functions_tbl :=
                      map (\<lambda>r. if fn_id r = fn_id fn_record
                                then set_metrics r new_count new_success new_error new_avg now
                                else r)
                          (functions_tbl db),
                    function_executions :=
                      function_executions db @
                        [\<lparr>ex_id = execution_id, ex_function_id = fn_id fn_record,
                          ex_user_id = fn_owner_id fn_record,
                          ex_trigger_type =
                            (case rq_delivery_id result of
                               None \<Rightarrow> ''http''
                             | Some d \<Rightarrow> if d = [] then ''http'' else ''webhook''),
                          ex_status = (if rq_success result then ''completed'' else ''failed''),
                          ex_duration_ms = duration_ms\<rparr>],
                    function_logs :=
                      function_logs db @
                        map (\<lambda>line. \<lparr>lg_execution_id = execution_id,
                                      lg_function_id = fn_id fn_record,
                                      lg_log_level = log_level_of line,
                                      lg_message = line\<rparr>)
                            (rq_logs result)\<rparr>)))"

subsection \<open>Properties of the callback\<close>

lemma find_map_same_key:
  assumes "find P xs = Some x" and "\<And>r. P (g r) = P r"
  shows "find P (map g xs) = Some (g x)"
  using assms by (induction xs) (auto split: if_splits)

text \<open>The names that pass the handler's two guards.\<close>

definition valid_function_name :: "string \<Rightarrow> bool" where
  "valid_function_name n = (n \<noteq> [] \<and> length n \<le> 255 \<and> CHR 0x00 \<notin> set n \<and> isascii n)"

text \<open>The stored average as the handler reads it: \<open>avg_execution_time_ms or 0\<close>.\<close>

definition stored_avg :: "function_row \<Rightarrow> int" where
  "stored_avg f = (case avg_execution_time_ms f of None \<Rightarrow> 0 | Some a \<Rightarrow> a)"

text \<open>The database accepts the values of the callback.\<close>

definition values_accepted ::
  "functions_env \<Rightarrow> function_row \<Rightarrow> execution_result_request \<Rightarrow> int \<Rightarrow> int \<Rightarrow> bool" where
  "values_accepted env f rq new_avg duration_ms =
     (fits_column env ''execution_count'' (execution_count f + 1)
      \<and> fits_column env ''execution_success_count''
           (execution_success_count f + (if rq_success rq then 1 else 0))
      \<and> fits_column env ''execution_error_count''
           (execution_error_count f + (if rq_success rq then 0 else 1))
      \<and> fits_column env ''avg_execution_time_ms'' new_avg
      \<and> fits_column env ''duration_ms'' duration_ms
      \<and> list_all (accepts_text env) (rq_logs rq))"

text \<open>
  The running average in the words of the specification,
  \<open>(old_avg * old_count + new_time) / (old_count + 1)\<close>, evaluated as Python evaluates it
  when the average and the count are integers and the time is a float, and truncated to an
  integer by \<open>int\<close>.
\<close>

definition running_average :: "int \<Rightarrow> int \<Rightarrow> py_float \<Rightarrow> py_exception + int" where
  "running_average old_avg old_count new_time =
     (case float_of_int (old_avg * old_count) of
        Inl e \<Rightarrow> Inl e
      | Inr a \<Rightarrow>
          (case float_of_int (old_count + 1) of
             Inl e \<Rightarrow> Inl e
           | Inr c \<Rightarrow>
               (case float_truediv (float_add a new_time) c of
                  Inl e \<Rightarrow> Inl e
                | Inr q \<Rightarrow> py_int q)))"





definition env_c8 :: functions_env where
  "env_c8 = \<lparr>fits_column = (\<lambda>c v. - 2147483648 \<le> v \<and> v \<le> 2147483647),
             accepts_text = (\<lambda>s. CHR 0x00 \<notin> set s),
             exc_text = (\<lambda>e. ''error'')\<rparr>"

definition fn_c8 :: function_row where
  "fn_c8 = \<lparr>fn_id = ''f1'', fn_name = ''hello'', fn_owner_id = ''u1'', execution_count = 1,
     execution_success_count = 1, execution_error_count = 0,
     avg_execution_time_ms = Some 100, last_executed_at = None\<rparr>"

definition fn_new_c8 :: function_row where
  "fn_new_c8 = \<lparr>fn_id = ''f2'', fn_name = ''fresh'', fn_owner_id = ''u1'', execution_count = 0,
     execution_success_count = 0, execution_error_count = 0,
     avg_execution_time_ms = None, last_executed_at = None\<rparr>"

definition db_c8 :: functions_db where
  "db_c8 = \<lparr>functions_tbl = [fn_c8, fn_new_c8], function_executions = [], function_logs = []\<rparr>"

definition rq_c8 :: "py_float \<Rightarrow> execution_result_request" where
  "rq_c8 t = \<lparr>rq_success = True, rq_logs = [''[WARN] slow''], rq_execution_time_ms = t,
            rq_delivery_id = None\<rparr>"

lemmas c8_defs = receive_execution_result_def execution_values_def new_avg_of_def
  running_average_def values_accepted_def valid_function_name_def stored_avg_def
  set_metrics_def isascii_def env_c8_def db_c8_def fn_c8_def fn_new_c8_def rq_c8_def




text \<open>
  The quotient is a float quotient, not the exact one. With the stored average 3 after one
  execution and the reported time \<open>3 - 2 ^ -51\<close> (the double below 3), the float sum rounds
  to 6 and the stored average is 3; the exact quotient \<open>3 - 2 ^ -52\<close> truncates to 2.
\<close>

lemma running_average_rounds:
  "running_average 3 1 (Finite (3 - 1 / 2 ^ 51)) = Inr 3
   \<and> trunc ((3 * 1 + (3 - 1 / 2 ^ 51)) / (1 + 1)) = 2"
  by code_simp

text \<open>
  Where the stored average is 0 and the count is not, the handler restarts the average at
  the new time. This is left out of the amended claim.
\<close>

lemma zero_average_restart:
  "new_avg_of (fn_c8\<lparr>execution_count := 5, avg_execution_time_ms := Some 0\<rparr>) (Finite 60) = Inr 60
   \<and> running_average 0 5 (Finite 60) = Inr 10"
  by code_simp

text \<open>A failed callback counts nothing: the tables are unchanged.\<close>

lemma receive_execution_result_error_unchanged:
  "fst (receive_execution_result env db n rq now eid) = Inl e \<Longrightarrow>
   snd (receive_execution_result env db n rq now eid) = db"
  by (auto simp: receive_execution_result_def split: if_splits option.splits sum.splits prod.splits)

section \<open>Authentication and refresh tokens (backend/security.py, endpoints/users.py)\<close>

text \<open>
  The rows of \<open>users\<close> and \<open>refresh_tokens\<close>. A row of \<open>users\<close> holds what the table holds;
  the columns are taken to have the types the \<open>INSERT\<close> of \<open>create_user\<close> gives them and to
  be non-null. The library functions the module calls are parameters, collected in
  \<open>auth_env\<close>: the SHA-256 digest \<open>hash_token\<close>, the JWT codec (\<open>jwt_decode\<close> answers \<open>None\<close>
  where the library raises \<open>InvalidTokenError\<close>), the \<open>UUID\<close> constructor (\<open>None\<close> where it
  raises \<open>ValueError\<close>) and the validator of pydantic's \<open>EmailStr\<close> (\<open>None\<close> where it rejects
  the address, otherwise the normalised address). Random values (a new raw token, a new
  user id) and the clock are arguments of the handler that uses them. A
  \<open>SELECT ... fetchone()\<close> is the first matching row of the table. The configured numbers of
  minutes and days are taken inside the range of \<open>timedelta\<close>.
\<close>

record user_in_db =
  u_id :: uuid
  u_email :: string
  u_password :: string
  u_first_name :: string
  u_last_name :: string
  u_role :: string
  u_is_active :: bool

record refresh_token_row =
  rt_user_id :: uuid
  rt_token_hash :: string
  rt_expires_at :: timestamp
  rt_revoked_at :: "timestamp option"

record auth_db =
  users :: "user_in_db list"
  refresh_tokens :: "refresh_token_row list"

record jwt_payload =
  jp_sub :: "string option"
  jp_role :: "string option"
  jp_exp :: timestamp

record auth_env =
  hash_token :: "string \<Rightarrow> string"
  jwt_encode :: "jwt_payload \<Rightarrow> string"
  jwt_decode :: "string \<Rightarrow> jwt_payload option"
  uuid_of_string :: "string \<Rightarrow> uuid option"
  validate_email :: "string \<Rightarrow> string option"
  ACCESS_TOKEN_EXPIRE_MINUTES :: int
  REFRESH_TOKEN_EXPIRE_DAYS :: int

record token_pair =
  tp_access_token :: string
  tp_refresh_token :: string
  tp_token_type :: string
  tp_expires_in :: int

text \<open>\<open>timedelta(minutes=m)\<close> and \<open>timedelta(days=d)\<close>, in microseconds.\<close>

definition minutes :: "int \<Rightarrow> int" where
  "minutes m = m * 60 * 1000000"

definition days :: "int \<Rightarrow> int" where
  "days d = d * 24 * 60 * 60 * 1000000"

text \<open>
  \<open>UserInDB(**record)\<close> (models/user.py): the model accepts the row when the address is
  accepted by \<open>EmailStr\<close>, both names have between 1 and 100 characters and match
  \<open>NAME_PATTERN\<close> (no NUL character), and the role is a value of the enumeration
  \<open>UserRole\<close>; otherwise it raises \<open>ValidationError\<close>. The object carries the normalised
  address.
\<close>

definition valid_name :: "string \<Rightarrow> bool" where
  "valid_name v = (1 \<le> length v \<and> length v \<le> 100 \<and> CHR 0x00 \<notin> set v)"

definition UserInDB :: "auth_env \<Rightarrow> user_in_db \<Rightarrow> py_exception + user_in_db" where
  "UserInDB env record =
     (case validate_email env (u_email record) of
        None \<Rightarrow> Inl ValidationError
      | Some email \<Rightarrow>
          if valid_name (u_first_name record) \<and> valid_name (u_last_name record)
             \<and> (u_role record = ''USER'' \<or> u_role record = ''ADMIN'')
          then Inr (record\<lparr>u_email := email\<rparr>)
          else Inl ValidationError)"

text \<open>
  \<open>create_access_token\<close>, for the two keys \<open>sub\<close> and \<open>role\<close> its callers pass. The test
  \<open>if expires_delta\<close> is false for \<open>None\<close> and for the zero \<open>timedelta\<close>: both give the
  default of 15 minutes.
\<close>

definition create_access_token ::
  "auth_env \<Rightarrow> uuid \<Rightarrow> string \<Rightarrow> int option \<Rightarrow> timestamp \<Rightarrow> string" where
  "create_access_token env sub role expires_delta now =
     (let expire = (case expires_delta of
                      None \<Rightarrow> now + minutes 15
                    | Some d \<Rightarrow> if d = 0 then now + minutes 15 else now + d)
      in jwt_encode env \<lparr>jp_sub = Some sub, jp_role = Some role, jp_exp = expire\<rparr>)"

definition credentials_exception :: py_exception where
  "credentials_exception = HTTPException 401 ''Could not validate credentials''"

text \<open>
  \<open>get_current_user\<close>: the \<open>try\<close> block catches \<open>InvalidTokenError\<close> only; a \<open>sub\<close> that is
  not a UUID makes \<open>UUID(...)\<close> raise \<open>ValueError\<close> outside it. The result is the row.
\<close>

definition get_current_user ::
  "auth_env \<Rightarrow> auth_db \<Rightarrow> string \<Rightarrow> py_exception + user_in_db" where
  "get_current_user env db token =
     (case jwt_decode env token of
        None \<Rightarrow> Inl credentials_exception
      | Some payload \<Rightarrow>
          (case jp_sub payload of
             None \<Rightarrow> Inl credentials_exception
           | Some user_id \<Rightarrow>
               (case uuid_of_string env user_id of
                  None \<Rightarrow> Inl ValueError
                | Some uid \<Rightarrow>
                    (case find (\<lambda>u. u_id u = uid) (users db) of
                       None \<Rightarrow> Inl credentials_exception
                     | Some record \<Rightarrow> Inr record))))"

definition get_current_active_user ::
  "auth_env \<Rightarrow> auth_db \<Rightarrow> string \<Rightarrow> py_exception + user_in_db" where
  "get_current_active_user env db token =
     (case get_current_user env db token of
        Inl e \<Rightarrow> Inl e
      | Inr current_user_record \<Rightarrow>
          (case UserInDB env current_user_record of
             Inl e \<Rightarrow> Inl e
           | Inr user \<Rightarrow>
               if \<not> u_is_active user then Inl (HTTPException 400 ''Inactive user'')
               else Inr user))"

text \<open>
  \<open>get_optional_current_user\<close>: \<open>optional_body\<close> is the body of the \<open>try\<close> block, with
  each raise as a value; the handler catches every exception and answers \<open>None\<close>.
\<close>

definition optional_body ::
  "auth_env \<Rightarrow> auth_db \<Rightarrow> string \<Rightarrow> py_exception + user_in_db option" where
  "optional_body env db token =
     (case jwt_decode env token of
        None \<Rightarrow> Inl InvalidTokenError
      | Some payload \<Rightarrow>
          (case jp_sub payload of
             None \<Rightarrow> Inr None
           | Some user_id \<Rightarrow>
               (case uuid_of_string env user_id of
                  None \<Rightarrow> Inl ValueError
                | Some uid \<Rightarrow>
                    (case find (\<lambda>u. u_id u = uid) (users db) of
                       None \<Rightarrow> Inr None
                     | Some record \<Rightarrow>
                         (case UserInDB env record of
                            Inl e \<Rightarrow> Inl e
                          | Inr user \<Rightarrow>
                              if \<not> u_is_active user then Inr None else Inr (Some user))))))"

definition get_optional_current_user ::
  "auth_env \<Rightarrow> auth_db \<Rightarrow> string option \<Rightarrow> user_in_db option" where
  "get_optional_current_user env db token =
     (case token of
        None \<Rightarrow> None
      | Some t \<Rightarrow>
          if t = [] then None
          else (case optional_body env db t of
                  Inl e \<Rightarrow> None
                | Inr r \<Rightarrow> r))"

text \<open>The token resolves to the row \<open>r\<close> of \<open>users\<close>: it verifies, carries a \<open>sub\<close> that is a
  UUID, and that UUID is the id of \<open>r\<close>, the first row with that id.\<close>

definition resolves_to :: "auth_env \<Rightarrow> auth_db \<Rightarrow> string \<Rightarrow> user_in_db \<Rightarrow> bool" where
  "resolves_to env db t r =
     (case jwt_decode env t of
        None \<Rightarrow> False
      | Some payload \<Rightarrow>
          (case jp_sub payload of
             None \<Rightarrow> False
           | Some s \<Rightarrow>
               (case uuid_of_string env s of
                  None \<Rightarrow> False
                | Some uid \<Rightarrow> find (\<lambda>u. u_id u = uid) (users db) = Some r)))"


subsection \<open>Refresh tokens\<close>

text \<open>
  \<open>create_refresh_token\<close> inserts one row; the raw token is the caller's random value.
  The statements' \<open>CURRENT_TIMESTAMP\<close> and Python's \<open>datetime.now\<close> are the one clock \<open>now\<close>.
\<close>

definition create_refresh_token ::
  "auth_env \<Rightarrow> auth_db \<Rightarrow> uuid \<Rightarrow> timestamp \<Rightarrow> string \<Rightarrow> string \<times> auth_db" where
  "create_refresh_token env db user_id now raw_token =
     (raw_token,
      db\<lparr>refresh_tokens :=
           refresh_tokens db @
             [\<lparr>rt_user_id = user_id, rt_token_hash = hash_token env raw_token,
               rt_expires_at = now + days (REFRESH_TOKEN_EXPIRE_DAYS env),
               rt_revoked_at = None\<rparr>]\<rparr>)"

definition validate_refresh_token ::
  "auth_env \<Rightarrow> auth_db \<Rightarrow> string \<Rightarrow> timestamp \<Rightarrow> uuid option" where
  "validate_refresh_token env db refresh_token now =
     (case find (\<lambda>r. rt_token_hash r = hash_token env refresh_token) (refresh_tokens db) of
        None \<Rightarrow> None
      | Some row \<Rightarrow>
          if rt_revoked_at row \<noteq> None then None
          else if rt_expires_at row < now then None
          else Some (rt_user_id row))"

definition revoke_all_user_tokens :: "auth_db \<Rightarrow> uuid \<Rightarrow> timestamp \<Rightarrow> nat \<times> auth_db" where
  "revoke_all_user_tokens db user_id now =
     (length (filter (\<lambda>r. rt_user_id r = user_id \<and> rt_revoked_at r = None) (refresh_tokens db)),
      db\<lparr>refresh_tokens :=
           map (\<lambda>r. if rt_user_id r = user_id \<and> rt_revoked_at r = None
                     then r\<lparr>rt_revoked_at := Some now\<rparr> else r)
               (refresh_tokens db)\<rparr>)"

definition rotate_refresh_token ::
  "auth_env \<Rightarrow> auth_db \<Rightarrow> string \<Rightarrow> uuid \<Rightarrow> timestamp \<Rightarrow> string \<Rightarrow> string option \<times> auth_db" where
  "rotate_refresh_token env db old_refresh_token user_id now raw_token =
     (let token_hash = hash_token env old_refresh_token;
          returning = filter (\<lambda>r. rt_token_hash r = token_hash \<and> rt_revoked_at r = None)
                        (refresh_tokens db);
          db1 = db\<lparr>refresh_tokens :=
                   map (\<lambda>r. if rt_token_hash r = token_hash \<and> rt_revoked_at r = None
                             then r\<lparr>rt_revoked_at := Some now\<rparr> else r)
                       (refresh_tokens db)\<rparr>
      in if returning = [] then (None, snd (revoke_all_user_tokens db1 user_id now))
         else (case create_refresh_token env db1 user_id now raw_token of
                 (t, db2) \<Rightarrow> (Some t, db2)))"

text \<open>
  \<open>refresh_access_token\<close> (endpoints/users.py). The validation step only reads. The
  model \<open>UserInDB(**user_record)\<close> is built before the \<open>is_active\<close> test; its
  \<open>ValidationError\<close> leaves the handler unhandled, before anything is written.
\<close>

definition refresh_access_token ::
  "auth_env \<Rightarrow> auth_db \<Rightarrow> string \<Rightarrow> timestamp \<Rightarrow> string
     \<Rightarrow> (py_exception + token_pair) \<times> auth_db" where
  "refresh_access_token env db body_refresh_token now raw_token =
     (case validate_refresh_token env db body_refresh_token now of
        None \<Rightarrow> (Inl (HTTPException 401 ''Invalid or expired refresh token''), db)
      | Some user_id \<Rightarrow>
          (case find (\<lambda>u. u_id u = user_id) (users db) of
             None \<Rightarrow> (Inl (HTTPException 401 ''User not found''), db)
           | Some user_record \<Rightarrow>
               (case UserInDB env user_record of
                  Inl e \<Rightarrow> (Inl e, db)
                | Inr user \<Rightarrow>
                    if \<not> u_is_active user then (Inl (HTTPException 400 ''Inactive user''), db)
                    else
                      (case rotate_refresh_token env db body_refresh_token user_id now
                              raw_token of
                         (None, db') \<Rightarrow>
                           (Inl (HTTPException 401
                                   ''Token reuse detected. All sessions revoked.''),
                            db')
                       | (Some new_refresh_token, db') \<Rightarrow>
                           (Inr \<lparr>tp_access_token =
                                   create_access_token env (u_id user) (u_role user)
                                     (Some (minutes (ACCESS_TOKEN_EXPIRE_MINUTES env))) now,
                                 tp_refresh_token = new_refresh_token,
                                 tp_token_type = ''bearer'',
                                 tp_expires_in = ACCESS_TOKEN_EXPIRE_MINUTES env * 60\<rparr>,
                            db')))))"

text \<open>The live refresh tokens of a user: unrevoked and not expired, as
  \<open>validate_refresh_token\<close> judges them.\<close>

definition live_tokens :: "auth_db \<Rightarrow> uuid \<Rightarrow> timestamp \<Rightarrow> refresh_token_row list" where
  "live_tokens db user_id now =
     filter (\<lambda>r. rt_user_id r = user_id \<and> rt_revoked_at r = None \<and> \<not> rt_expires_at r < now)
       (refresh_tokens db)"

subsection \<open>User registration\<close>

record user_create =
  uc_email :: string
  uc_first_name :: string
  uc_last_name :: string
  uc_password :: string

text \<open>
  \<open>create_user\<close>: the \<open>INSERT\<close> raises \<open>UniqueViolation\<close> when a row has the new row's
  email (the unique key of the data model) or its id (the primary key). \<open>user_id\<close> is the
  handler's random UUID, \<open>hashed_password\<close> the result of the password hasher.
\<close>

definition create_user ::
  "auth_db \<Rightarrow> user_create \<Rightarrow> uuid \<Rightarrow> string \<Rightarrow> (py_exception + user_in_db) \<times> auth_db" where
  "create_user db user user_id hashed_password =
     (if \<exists>r \<in> set (users db). u_email r = uc_email user \<or> u_id r = user_id then
        (case find (\<lambda>r. u_email r = uc_email user) (users db) of
           Some existing \<Rightarrow> (Inr existing, db)
         | None \<Rightarrow> (Inl (HTTPException 409 ''Email already taken''), db))
      else
        (let created = \<lparr>u_id = user_id, u_email = uc_email user, u_password = hashed_password,
                         u_first_name = uc_first_name user, u_last_name = uc_last_name user,
                         u_role = ''USER'', u_is_active = True\<rparr>
         in (Inr created, db\<lparr>users := users db @ [created]\<rparr>)))"

subsection \<open>Properties of the refresh-token functions\<close>

lemma UserInDB_error: "UserInDB env record = Inl e \<Longrightarrow> e = ValidationError"
  by (auto simp: UserInDB_def split: option.splits if_splits)

lemma find_append_first:
  "find P xs = Some x \<Longrightarrow> find P (xs @ ys) = Some x"
  by (induction xs) (auto split: if_splits)

lemma find_Some_holds: "find P xs = Some x \<Longrightarrow> P x"
  by (induction xs) (auto split: if_splits)

lemma find_Some_filter: "find P xs = Some x \<Longrightarrow> Q x \<Longrightarrow> filter (\<lambda>r. P r \<and> Q r) xs \<noteq> []"
  by (induction xs) (auto split: if_splits)

text \<open>The effect of the conditional \<open>UPDATE ... WHERE token_hash = h AND revoked_at IS NULL\<close>
  on one row.\<close>

definition revoke_hash :: "string \<Rightarrow> timestamp \<Rightarrow> refresh_token_row \<Rightarrow> refresh_token_row" where
  "revoke_hash h now r =
     (if rt_token_hash r = h \<and> rt_revoked_at r = None then r\<lparr>rt_revoked_at := Some now\<rparr> else r)"

lemma rotate_live:
  assumes "find (\<lambda>r. rt_token_hash r = hash_token env tok) (refresh_tokens db) = Some row"
    and "rt_revoked_at row = None"
  shows "rotate_refresh_token env db tok uid now raw =
    (Some raw,
     db\<lparr>refresh_tokens :=
          map (revoke_hash (hash_token env tok) now) (refresh_tokens db) @
            [\<lparr>rt_user_id = uid, rt_token_hash = hash_token env raw,
              rt_expires_at = now + days (REFRESH_TOKEN_EXPIRE_DAYS env),
              rt_revoked_at = None\<rparr>]\<rparr>)"
proof -
  have "filter (\<lambda>r. rt_token_hash r = hash_token env tok \<and> rt_revoked_at r = None)
          (refresh_tokens db) \<noteq> []"
    using find_Some_filter [OF assms(1), of "\<lambda>r. rt_revoked_at r = None"] assms(2) by simp
  then show ?thesis
    by (simp add: rotate_refresh_token_def create_refresh_token_def Let_def revoke_hash_def [abs_def])
qed

lemma rotate_reuse:
  assumes "filter (\<lambda>r. rt_token_hash r = hash_token env tok \<and> rt_revoked_at r = None)
             (refresh_tokens db) = []"
  shows "fst (rotate_refresh_token env db tok uid now raw) = None"
    and "r \<in> set (refresh_tokens (snd (rotate_refresh_token env db tok uid now raw)))
           \<Longrightarrow> rt_user_id r = uid \<Longrightarrow> rt_revoked_at r \<noteq> None"
proof -
  let ?G = "\<lambda>r. if rt_user_id r = uid \<and> rt_revoked_at r = None
                 then r\<lparr>rt_revoked_at := Some now\<rparr> else r"
  let ?H = "\<lambda>r. if rt_token_hash r = hash_token env tok \<and> rt_revoked_at r = None
                 then r\<lparr>rt_revoked_at := Some now\<rparr> else r"
  have eq: "rotate_refresh_token env db tok uid now raw =
      (None, db\<lparr>refresh_tokens := map ?G (map ?H (refresh_tokens db))\<rparr>)"
    using assms by (simp add: rotate_refresh_token_def revoke_all_user_tokens_def Let_def)
  show "fst (rotate_refresh_token env db tok uid now raw) = None"
    by (simp only: eq fst_conv)
  have G: "rt_user_id (?G y) = uid \<Longrightarrow> rt_revoked_at (?G y) \<noteq> None" for y
    by (cases "rt_user_id y = uid \<and> rt_revoked_at y = None") auto
  assume r: "r \<in> set (refresh_tokens (snd (rotate_refresh_token env db tok uid now raw)))"
    and u: "rt_user_id r = uid"
  have sel: "refresh_tokens (db\<lparr>refresh_tokens := X\<rparr>) = X" for X
    by simp
  from r have "r \<in> set (map ?G (map ?H (refresh_tokens db)))"
    by (simp only: eq snd_conv sel)
  then have "r \<in> ?G ` set (map ?H (refresh_tokens db))"
    by (simp only: set_map)
  then obtain y where "r = ?G y" by (rule imageE)
  with G [of y] u show "rt_revoked_at r \<noteq> None" by simp
qed

lemma refresh_valid:
  assumes f: "find (\<lambda>r. rt_token_hash r = hash_token env tok) (refresh_tokens db) = Some row"
    and unrev: "rt_revoked_at row = None"
    and unexp: "\<not> rt_expires_at row < now"
    and usr: "find (\<lambda>u. u_id u = rt_user_id row) (users db) = Some user_record"
    and val: "UserInDB env user_record = Inr user"
    and act: "u_is_active user"
  shows "refresh_access_token env db tok now raw =
     (Inr \<lparr>tp_access_token =
             create_access_token env (u_id user) (u_role user)
               (Some (minutes (ACCESS_TOKEN_EXPIRE_MINUTES env))) now,
           tp_refresh_token = raw, tp_token_type = ''bearer'',
           tp_expires_in = ACCESS_TOKEN_EXPIRE_MINUTES env * 60\<rparr>,
      db\<lparr>refresh_tokens :=
          map (revoke_hash (hash_token env tok) now) (refresh_tokens db) @
            [\<lparr>rt_user_id = rt_user_id row, rt_token_hash = hash_token env raw,
              rt_expires_at = now + days (REFRESH_TOKEN_EXPIRE_DAYS env),
              rt_revoked_at = None\<rparr>]\<rparr>)"
proof -
  have v: "validate_refresh_token env db tok now = Some (rt_user_id row)"
    using f unrev unexp by (simp add: validate_refresh_token_def)
  show ?thesis
    using usr val act by (simp add: refresh_access_token_def v rotate_live [OF f unrev])
qed

lemma validate_Some:
  assumes "validate_refresh_token env db tok now = Some uid"
  shows "\<exists>row. find (\<lambda>r. rt_token_hash r = hash_token env tok) (refresh_tokens db) = Some row
     \<and> rt_revoked_at row = None \<and> \<not> rt_expires_at row < now \<and> rt_user_id row = uid"
  using assms by (auto simp: validate_refresh_token_def split: option.splits if_splits)

lemma refresh_ok_inv:
  assumes "refresh_access_token env db tok now raw = (Inr pair, db')"
  shows "\<exists>row user_record user.
       find (\<lambda>r. rt_token_hash r = hash_token env tok) (refresh_tokens db) = Some row
     \<and> rt_revoked_at row = None \<and> \<not> rt_expires_at row < now
     \<and> find (\<lambda>u. u_id u = rt_user_id row) (users db) = Some user_record
     \<and> UserInDB env user_record = Inr user \<and> u_is_active user"
proof -
  obtain uid where v: "validate_refresh_token env db tok now = Some uid"
    using assms by (cases "validate_refresh_token env db tok now")
      (auto simp: refresh_access_token_def)
  from validate_Some [OF v] obtain row where
    f: "find (\<lambda>r. rt_token_hash r = hash_token env tok) (refresh_tokens db) = Some row"
    and r: "rt_revoked_at row = None" "\<not> rt_expires_at row < now" "rt_user_id row = uid"
    by blast
  obtain user_record where u: "find (\<lambda>u. u_id u = uid) (users db) = Some user_record"
    using assms v by (cases "find (\<lambda>u. u_id u = uid) (users db)")
      (auto simp: refresh_access_token_def)
  obtain user where m: "UserInDB env user_record = Inr user"
    using assms v u by (cases "UserInDB env user_record")
      (auto simp: refresh_access_token_def)
  have "u_is_active user"
    using assms v u m by (cases "u_is_active user") (auto simp: refresh_access_token_def)
  with f r u m show ?thesis by blast
qed

lemma refresh_twice:
  assumes "refresh_access_token env db tok now raw = (Inr pair, db')"
  shows "refresh_access_token env db' tok now' raw' =
     (Inl (HTTPException 401 ''Invalid or expired refresh token''), db')"
proof -
  from refresh_ok_inv [OF assms] obtain row user_record user where
    f: "find (\<lambda>r. rt_token_hash r = hash_token env tok) (refresh_tokens db) = Some row"
    and unrev: "rt_revoked_at row = None" and unexp: "\<not> rt_expires_at row < now"
    and usr: "find (\<lambda>u. u_id u = rt_user_id row) (users db) = Some user_record"
    and val: "UserInDB env user_record = Inr user"
    and act: "u_is_active user"
    by blast
  let ?g = "revoke_hash (hash_token env tok) now"
  have db': "refresh_tokens db' =
      map ?g (refresh_tokens db) @
        [\<lparr>rt_user_id = rt_user_id row, rt_token_hash = hash_token env raw,
          rt_expires_at = now + days (REFRESH_TOKEN_EXPIRE_DAYS env), rt_revoked_at = None\<rparr>]"
    using assms refresh_valid [OF f unrev unexp usr val act, of raw] by auto
  have h: "rt_token_hash row = hash_token env tok"
    using find_Some_holds [OF f] .
  have "find (\<lambda>r. rt_token_hash r = hash_token env tok) (map ?g (refresh_tokens db)) = Some (?g row)"
    by (rule find_map_same_key [OF f]) (simp add: revoke_hash_def)
  then have "find (\<lambda>r. rt_token_hash r = hash_token env tok) (refresh_tokens db') = Some (?g row)"
    unfolding db' by (rule find_append_first)
  moreover have "rt_revoked_at (?g row) = Some now"
    using h unrev by (simp add: revoke_hash_def)
  ultimately have "validate_refresh_token env db' tok now' = None"
    by (simp add: validate_refresh_token_def)
  then show ?thesis by (simp add: refresh_access_token_def)
qed

lemma refresh_rejected_unchanged:
  assumes "find (\<lambda>r. rt_token_hash r = hash_token env tok) (refresh_tokens db) = None
     \<or> (\<exists>row. find (\<lambda>r. rt_token_hash r = hash_token env tok) (refresh_tokens db) = Some row
           \<and> rt_revoked_at row = None \<and> rt_expires_at row < now)"
  shows "refresh_access_token env db tok now raw =
     (Inl (HTTPException 401 ''Invalid or expired refresh token''), db)"
  using assms by (auto simp: refresh_access_token_def validate_refresh_token_def)

text \<open>
  The endpoint rotates only a token that the validation step has just found unrevoked, so
  the conditional \<open>UPDATE\<close> of \<open>rotate_refresh_token\<close> always finds its row: the endpoint
  never takes the branch that revokes all tokens of the user, whatever the request.
\<close>

lemma refresh_never_reaches_cascade:
  "fst (refresh_access_token env db tok now raw)
     \<noteq> Inl (HTTPException 401 ''Token reuse detected. All sessions revoked.'')"
proof (cases "validate_refresh_token env db tok now")
  case None
  then show ?thesis by (simp add: refresh_access_token_def)
next
  case (Some uid)
  from validate_Some [OF Some] obtain row where
    f: "find (\<lambda>r. rt_token_hash r = hash_token env tok) (refresh_tokens db) = Some row"
    and unrev: "rt_revoked_at row = None"
    by blast
  show ?thesis
    using Some
    by (auto simp: refresh_access_token_def rotate_live [OF f unrev]
        split: option.splits sum.splits dest: UserInDB_error)
qed

text \<open>
  The success path. When the presented token's stored row is unrevoked and not yet
  expired and its user row exists, passes the model and is active, the endpoint returns a
  new access and refresh pair, the stored rows are the old rows with the unrevoked rows of
  that token hash marked revoked, followed by exactly one new unrevoked row for the same
  user; the presented row is now revoked; and a second refresh with the same token is
  answered 401 by the validation step, which changes nothing.
\<close>

lemma refresh_rotation:
  assumes f: "find (\<lambda>r. rt_token_hash r = hash_token env tok) (refresh_tokens db) = Some row"
    and unrev: "rt_revoked_at row = None"
    and unexp: "\<not> rt_expires_at row < now"
    and usr: "find (\<lambda>u. u_id u = rt_user_id row) (users db) = Some user_record"
    and val: "UserInDB env user_record = Inr user"
    and act: "u_is_active user"
  shows "refresh_access_token env db tok now raw =
        (Inr \<lparr>tp_access_token =
                create_access_token env (u_id user) (u_role user)
                  (Some (minutes (ACCESS_TOKEN_EXPIRE_MINUTES env))) now,
              tp_refresh_token = raw, tp_token_type = ''bearer'',
              tp_expires_in = ACCESS_TOKEN_EXPIRE_MINUTES env * 60\<rparr>,
         db\<lparr>refresh_tokens :=
             map (revoke_hash (hash_token env tok) now) (refresh_tokens db) @
               [\<lparr>rt_user_id = rt_user_id row, rt_token_hash = hash_token env raw,
                 rt_expires_at = now + days (REFRESH_TOKEN_EXPIRE_DAYS env),
                 rt_revoked_at = None\<rparr>]\<rparr>)"
    and "find (\<lambda>r. rt_token_hash r = hash_token env tok)
            (refresh_tokens (snd (refresh_access_token env db tok now raw)))
          = Some (row\<lparr>rt_revoked_at := Some now\<rparr>)"
    and "refresh_access_token env (snd (refresh_access_token env db tok now raw)) tok now' raw'
          = (Inl (HTTPException 401 ''Invalid or expired refresh token''),
             snd (refresh_access_token env db tok now raw))"
proof -
  note v = refresh_valid [OF f unrev unexp usr val act, of raw]
  show "refresh_access_token env db tok now raw =
        (Inr \<lparr>tp_access_token =
                create_access_token env (u_id user) (u_role user)
                  (Some (minutes (ACCESS_TOKEN_EXPIRE_MINUTES env))) now,
              tp_refresh_token = raw, tp_token_type = ''bearer'',
              tp_expires_in = ACCESS_TOKEN_EXPIRE_MINUTES env * 60\<rparr>,
         db\<lparr>refresh_tokens :=
             map (revoke_hash (hash_token env tok) now) (refresh_tokens db) @
               [\<lparr>rt_user_id = rt_user_id row, rt_token_hash = hash_token env raw,
                 rt_expires_at = now + days (REFRESH_TOKEN_EXPIRE_DAYS env),
                 rt_revoked_at = None\<rparr>]\<rparr>)"
    by (rule v)
  have h: "rt_token_hash row = hash_token env tok"
    using find_Some_holds [OF f] .
  have "find (\<lambda>r. rt_token_hash r = hash_token env tok)
          (map (revoke_hash (hash_token env tok) now) (refresh_tokens db))
        = Some (revoke_hash (hash_token env tok) now row)"
    by (rule find_map_same_key [OF f]) (simp add: revoke_hash_def)
  then have "find (\<lambda>r. rt_token_hash r = hash_token env tok)
          (map (revoke_hash (hash_token env tok) now) (refresh_tokens db) @
               [\<lparr>rt_user_id = rt_user_id row, rt_token_hash = hash_token env raw,
                 rt_expires_at = now + days (REFRESH_TOKEN_EXPIRE_DAYS env),
                 rt_revoked_at = None\<rparr>])
        = Some (revoke_hash (hash_token env tok) now row)"
    by (rule find_append_first)
  moreover have "revoke_hash (hash_token env tok) now row = row\<lparr>rt_revoked_at := Some now\<rparr>"
    using h unrev by (simp add: revoke_hash_def)
  ultimately show "find (\<lambda>r. rt_token_hash r = hash_token env tok)
            (refresh_tokens (snd (refresh_access_token env db tok now raw)))
          = Some (row\<lparr>rt_revoked_at := Some now\<rparr>)"
    by (simp add: v)
  show "refresh_access_token env (snd (refresh_access_token env db tok now raw)) tok now' raw'
          = (Inl (HTTPException 401 ''Invalid or expired refresh token''),
             snd (refresh_access_token env db tok now raw))"
    by (rule refresh_twice [of env db tok now raw _ "snd (refresh_access_token env db tok now raw)"])
       (simp add: v)
qed

subsection \<open>A concrete installation\<close>

text \<open>Two users, Alice (active) and Bob (inactive), each holding one unrevoked refresh
  token that expires at time 1000. The digest of a token \<open>t\<close> is written \<open>h:t\<close>; every
  address is accepted as it is.\<close>

definition alice :: user_in_db where
  "alice = \<lparr>u_id = ''u1'', u_email = ''a@b.c'', u_password = ''hash1'', u_first_name = ''A'',
             u_last_name = ''B'', u_role = ''USER'', u_is_active = True\<rparr>"

definition bob :: user_in_db where
  "bob = \<lparr>u_id = ''u2'', u_email = ''bob@b.c'', u_password = ''hash2'', u_first_name = ''Bob'',
           u_last_name = ''C'', u_role = ''USER'', u_is_active = False\<rparr>"

definition env_ex :: auth_env where
  "env_ex = \<lparr>hash_token = (\<lambda>t. ''h:'' @ t),
            jwt_encode = (\<lambda>p. ''jwt''),
            jwt_decode = (\<lambda>t. if t = ''tok-alice''
                                then Some \<lparr>jp_sub = Some ''u1'', jp_role = Some ''USER'', jp_exp = 0\<rparr>
                                else if t = ''tok-bob''
                                then Some \<lparr>jp_sub = Some ''u2'', jp_role = Some ''USER'', jp_exp = 0\<rparr>
                                else if t = ''tok-carol''
                                then Some \<lparr>jp_sub = Some ''u3'', jp_role = Some ''GUEST'', jp_exp = 0\<rparr>
                                else if t = ''tok-dave''
                                then Some \<lparr>jp_sub = Some ''u4'', jp_role = Some ''GUEST'', jp_exp = 0\<rparr>
                                else None),
            uuid_of_string = (\<lambda>s. if s = [] then None else Some s),
            validate_email = (\<lambda>s. Some s),
            ACCESS_TOKEN_EXPIRE_MINUTES = 15,
            REFRESH_TOKEN_EXPIRE_DAYS = 30\<rparr>"

definition token_row :: "uuid \<Rightarrow> string \<Rightarrow> timestamp \<Rightarrow> timestamp option \<Rightarrow> refresh_token_row" where
  "token_row uid tok e r = \<lparr>rt_user_id = uid, rt_token_hash = ''h:'' @ tok, rt_expires_at = e,
                            rt_revoked_at = r\<rparr>"

definition db_ex :: auth_db where
  "db_ex = \<lparr>users = [alice, bob],
           refresh_tokens = [token_row ''u1'' ''R1'' 1000 None, token_row ''u2'' ''B1'' 1000 None]\<rparr>"

text \<open>The installation after Alice's refresh with \<open>R1\<close> at time 10, which issued \<open>R2\<close>.\<close>

definition db_refreshed :: auth_db where
  "db_refreshed = \<lparr>users = [alice, bob],
           refresh_tokens = [token_row ''u1'' ''R1'' 1000 (Some 10), token_row ''u2'' ''B1'' 1000 None,
                             token_row ''u1'' ''R2'' 2592000000010 None]\<rparr>"

lemmas auth_ex_defs = env_ex_def db_ex_def db_refreshed_def alice_def bob_def token_row_def
  refresh_access_token_def validate_refresh_token_def rotate_refresh_token_def
  create_refresh_token_def revoke_all_user_tokens_def create_access_token_def live_tokens_def
  UserInDB_def valid_name_def days_def minutes_def revoke_hash_def Let_def

text \<open>
  Claim C1 against the code. Alice refreshes with \<open>R1\<close> at time 10 and receives \<open>R2\<close>: the
  row of \<open>R1\<close> is revoked and one new row is stored. She (or a thief) then presents \<open>R1\<close>
  again at time 20. The claim, the specification and the comments of the code (\<open>Revoke ALL tokens for this user as a security measure\<close> in \<open>rotate_refresh_token\<close>,
  \<open>Token reuse detected - all tokens revoked\<close> in the endpoint) require that every live token of Alice is revoked. The endpoint answers 401
  from its validation step, which rejects a revoked row before \<open>rotate_refresh_token\<close> is
  called; nothing is written, and \<open>R2\<close> remains a live token of Alice.
\<close>

theorem C1_second_refresh_leaves_new_token_live:
  "refresh_access_token env_ex db_ex ''R1'' 10 ''R2'' =
     (Inr \<lparr>tp_access_token = ''jwt'', tp_refresh_token = ''R2'', tp_token_type = ''bearer'',
           tp_expires_in = 900\<rparr>,
      db_refreshed)
   \<and> refresh_access_token env_ex db_refreshed ''R1'' 20 ''R3''
     = (Inl (HTTPException 401 ''Invalid or expired refresh token''), db_refreshed)
   \<and> live_tokens db_refreshed ''u1'' 20 = [token_row ''u1'' ''R2'' 2592000000010 None]
   \<and> fst (rotate_refresh_token env_ex db_refreshed ''R1'' ''u1'' 20 ''R3'') = None
   \<and> live_tokens (snd (rotate_refresh_token env_ex db_refreshed ''R1'' ''u1'' 20 ''R3''))
        ''u1'' 20 = []"
  by (simp add: auth_ex_defs)


text \<open>
  Claim C9, as stated, fails at the boundary \<open>expires_at = now\<close>: the validation step
  rejects a row only when \<open>expires_at < now\<close>, so a token presented at the very instant it
  expires is rotated.
\<close>

theorem C9_expiry_boundary_counterexample:
  "refresh_access_token env_ex db_ex ''R1'' 1000 ''R2'' =
   (Inr \<lparr>tp_access_token = ''jwt'', tp_refresh_token = ''R2'', tp_token_type = ''bearer'',
         tp_expires_in = 900\<rparr>,
    \<lparr>users = [alice, bob],
     refresh_tokens = [token_row ''u1'' ''R1'' 1000 (Some 1000), token_row ''u2'' ''B1'' 1000 None,
                       token_row ''u1'' ''R2'' 2592000001000 None]\<rparr>)"
  by (simp add: auth_ex_defs)

text \<open>
  Claim C9, amended. For every refresh request presenting a token whose stored row is
  unrevoked but expired (\<open>expires_at < now\<close>), or a token with no stored row, the response
  is 401 and the database is unchanged: the expired row stays unrevoked and none of the
  user's other tokens is revoked.
\<close>

theorem C9_expired_token_rejected_unchanged:
  assumes "find (\<lambda>r. rt_token_hash r = hash_token env tok) (refresh_tokens db) = None
     \<or> (\<exists>row. find (\<lambda>r. rt_token_hash r = hash_token env tok) (refresh_tokens db) = Some row
           \<and> rt_revoked_at row = None \<and> rt_expires_at row < now)"
  shows "refresh_access_token env db tok now raw =
     (Inl (HTTPException 401 ''Invalid or expired refresh token''), db)"
  using assms by (rule refresh_rejected_unchanged)

theorem C9_expired_token_rejected_unchanged_witness:
  "find (\<lambda>r. rt_token_hash r = hash_token env_ex ''R1'') (refresh_tokens db_ex)
      = Some (token_row ''u1'' ''R1'' 1000 None)
   \<and> rt_revoked_at (token_row ''u1'' ''R1'' 1000 None) = None
   \<and> rt_expires_at (token_row ''u1'' ''R1'' 1000 None) < 1001
   \<and> refresh_access_token env_ex db_ex ''R1'' 1001 ''R2''
      = (Inl (HTTPException 401 ''Invalid or expired refresh token''), db_ex)
   \<and> find (\<lambda>r. rt_token_hash r = hash_token env_ex ''ZZ'') (refresh_tokens db_ex) = None
   \<and> refresh_access_token env_ex db_ex ''ZZ'' 10 ''R2''
      = (Inl (HTTPException 401 ''Invalid or expired refresh token''), db_ex)"
proof -
  have h1: "find (\<lambda>r. rt_token_hash r = hash_token env_ex ''R1'') (refresh_tokens db_ex)
      = Some (token_row ''u1'' ''R1'' 1000 None)"
    by (simp add: auth_ex_defs)
  have h2: "rt_revoked_at (token_row ''u1'' ''R1'' 1000 None) = None"
    "rt_expires_at (token_row ''u1'' ''R1'' 1000 None) < 1001"
    by (simp_all add: token_row_def)
  have h3: "find (\<lambda>r. rt_token_hash r = hash_token env_ex ''ZZ'') (refresh_tokens db_ex) = None"
    by (simp add: auth_ex_defs)
  have a: "refresh_access_token env_ex db_ex ''R1'' 1001 ''R2''
      = (Inl (HTTPException 401 ''Invalid or expired refresh token''), db_ex)"
    by (rule C9_expired_token_rejected_unchanged) (use h1 h2 in blast)
  have b: "refresh_access_token env_ex db_ex ''ZZ'' 10 ''R2''
      = (Inl (HTTPException 401 ''Invalid or expired refresh token''), db_ex)"
    by (rule C9_expired_token_rejected_unchanged) (use h3 in blast)
  from h1 h2 h3 a b show ?thesis by blast
qed

text \<open>Carol is active and Dave is inactive; the role stored in their rows is not a value
  of \<open>UserRole\<close>, so the rows do not pass the model \<open>UserInDB\<close>.\<close>

definition carol :: user_in_db where
  "carol = \<lparr>u_id = ''u3'', u_email = ''carol@b.c'', u_password = ''hash3'',
             u_first_name = ''Carol'', u_last_name = ''D'', u_role = ''GUEST'',
             u_is_active = True\<rparr>"

definition dave :: user_in_db where
  "dave = \<lparr>u_id = ''u4'', u_email = ''dave@b.c'', u_password = ''hash4'',
            u_first_name = ''Dave'', u_last_name = ''E'', u_role = ''GUEST'',
            u_is_active = False\<rparr>"

definition db_guests :: auth_db where
  "db_guests = \<lparr>users = [alice, bob, carol, dave], refresh_tokens = []\<rparr>"

lemmas optional_ex_defs = get_optional_current_user_def optional_body_def resolves_to_def
  get_current_active_user_def get_current_user_def UserInDB_def valid_name_def env_ex_def
  db_ex_def db_guests_def alice_def bob_def carol_def dave_def

text \<open>
  Claim C10, as stated, fails for a row that does not pass the model \<open>UserInDB\<close>. Carol's
  token verifies and resolves to her row, which is active, but the resolver answers \<open>None\<close>:
  the \<open>ValidationError\<close> of the model is caught with every other exception. Dave's token
  resolves to an inactive row; the required-auth path does not answer 400 but leaves with
  the \<open>ValidationError\<close>.
\<close>

theorem C10_invalid_row_counterexample:
  "resolves_to env_ex db_guests ''tok-carol'' carol \<and> u_is_active carol
   \<and> get_optional_current_user env_ex db_guests (Some ''tok-carol'') = None
   \<and> resolves_to env_ex db_guests ''tok-dave'' dave \<and> \<not> u_is_active dave
   \<and> get_current_active_user env_ex db_guests ''tok-dave'' = Inl ValidationError"
  by (simp add: optional_ex_defs)

text \<open>
  Claim C10, amended. The optional-auth resolver is a total function into \<open>user option\<close>:
  every exception of its body is caught and answered \<open>None\<close>. It returns \<open>None\<close> for a
  missing or empty token, a token that does not verify, a token without \<open>sub\<close>, a \<open>sub\<close>
  that is no UUID, a \<open>sub\<close> with no user row, a row that does not pass the model \<open>UserInDB\<close>,
  and the token of an inactive user; it returns a user exactly when the token verifies and
  resolves to a row that passes the model and is active, and the user is then the model
  of that row. The required-auth path rejects the token of an inactive user whose row
  passes the model with 400, and leaves with the model's exception when the row does not
  pass.
\<close>

theorem C10_optional_auth_resolver:
  "(get_optional_current_user env db token = Some u
      \<longleftrightarrow> (\<exists>t r. token = Some t \<and> t \<noteq> [] \<and> resolves_to env db t r
                  \<and> UserInDB env r = Inr u \<and> u_is_active u))
   \<and> get_optional_current_user env db None = None
   \<and> get_optional_current_user env db (Some []) = None
   \<and> (jwt_decode env t = None \<longrightarrow> get_optional_current_user env db (Some t) = None)
   \<and> (jwt_decode env t = Some payload \<and> jp_sub payload = None
        \<longrightarrow> get_optional_current_user env db (Some t) = None)
   \<and> (jwt_decode env t = Some payload \<and> jp_sub payload = Some s \<and> uuid_of_string env s = None
        \<longrightarrow> get_optional_current_user env db (Some t) = None)
   \<and> (jwt_decode env t = Some payload \<and> jp_sub payload = Some s
        \<and> uuid_of_string env s = Some uid \<and> find (\<lambda>u. u_id u = uid) (users db) = None
        \<longrightarrow> get_optional_current_user env db (Some t) = None)
   \<and> (resolves_to env db t r \<and> UserInDB env r = Inl e
        \<longrightarrow> get_optional_current_user env db (Some t) = None
            \<and> get_current_active_user env db t = Inl e)
   \<and> (resolves_to env db t r \<and> UserInDB env r = Inr v \<and> \<not> u_is_active v
        \<longrightarrow> get_optional_current_user env db (Some t) = None
            \<and> get_current_active_user env db t = Inl (HTTPException 400 ''Inactive user''))"
proof -
  have body: "optional_body env db t' = Inr (Some u')
      \<longleftrightarrow> (\<exists>r. resolves_to env db t' r \<and> UserInDB env r = Inr u' \<and> u_is_active u')" for t' u'
    by (auto simp: optional_body_def resolves_to_def split: option.splits sum.splits if_splits)
  have opt: "get_optional_current_user env db (Some t') = Some u'
      \<longleftrightarrow> (t' \<noteq> [] \<and> optional_body env db t' = Inr (Some u'))" for t' u'
    by (auto simp: get_optional_current_user_def split: sum.splits)
  have none: "get_optional_current_user env db None = None"
    "get_optional_current_user env db (Some []) = None"
    by (simp_all add: get_optional_current_user_def)
  have c1: "get_optional_current_user env db token = Some u
      \<longleftrightarrow> (\<exists>t r. token = Some t \<and> t \<noteq> [] \<and> resolves_to env db t r
                  \<and> UserInDB env r = Inr u \<and> u_is_active u)"
  proof (cases token)
    case None
    then show ?thesis by (simp add: none)
  next
    case (Some t')
    then show ?thesis using opt [of t' u] body [of t' u] by auto
  qed
  have c4: "jwt_decode env t = None \<longrightarrow> get_optional_current_user env db (Some t) = None"
    by (simp add: get_optional_current_user_def optional_body_def)
  have c5: "jwt_decode env t = Some payload \<and> jp_sub payload = None
        \<longrightarrow> get_optional_current_user env db (Some t) = None"
    by (simp add: get_optional_current_user_def optional_body_def)
  have c6: "jwt_decode env t = Some payload \<and> jp_sub payload = Some s
        \<and> uuid_of_string env s = None
        \<longrightarrow> get_optional_current_user env db (Some t) = None"
    by (simp add: get_optional_current_user_def optional_body_def)
  have c7: "jwt_decode env t = Some payload \<and> jp_sub payload = Some s
        \<and> uuid_of_string env s = Some uid \<and> find (\<lambda>u. u_id u = uid) (users db) = None
        \<longrightarrow> get_optional_current_user env db (Some t) = None"
    by (simp add: get_optional_current_user_def optional_body_def)
  have c8: "resolves_to env db t r \<and> UserInDB env r = Inl e
        \<longrightarrow> get_optional_current_user env db (Some t) = None
            \<and> get_current_active_user env db t = Inl e"
    by (auto simp: get_optional_current_user_def optional_body_def resolves_to_def
        get_current_active_user_def get_current_user_def split: option.splits)
  have c9: "resolves_to env db t r \<and> UserInDB env r = Inr v \<and> \<not> u_is_active v
        \<longrightarrow> get_optional_current_user env db (Some t) = None
            \<and> get_current_active_user env db t = Inl (HTTPException 400 ''Inactive user'')"
    by (auto simp: get_optional_current_user_def optional_body_def resolves_to_def
        get_current_active_user_def get_current_user_def split: option.splits)
  from c1 none c4 c5 c6 c7 c8 c9 show ?thesis by blast
qed

theorem C10_optional_auth_resolver_witness:
  "get_optional_current_user env_ex db_ex (Some ''tok-alice'') = Some alice
   \<and> resolves_to env_ex db_ex ''tok-alice'' alice \<and> UserInDB env_ex alice = Inr alice
   \<and> u_is_active alice
   \<and> get_optional_current_user env_ex db_ex None = None
   \<and> jwt_decode env_ex ''garbage'' = None
   \<and> get_optional_current_user env_ex db_ex (Some ''garbage'') = None
   \<and> resolves_to env_ex db_ex ''tok-bob'' bob \<and> UserInDB env_ex bob = Inr bob
   \<and> \<not> u_is_active bob
   \<and> get_optional_current_user env_ex db_ex (Some ''tok-bob'') = None
   \<and> get_current_active_user env_ex db_ex ''tok-bob''
       = Inl (HTTPException 400 ''Inactive user'')
   \<and> resolves_to env_ex db_guests ''tok-carol'' carol
   \<and> UserInDB env_ex carol = Inl ValidationError
   \<and> get_optional_current_user env_ex db_guests (Some ''tok-carol'') = None
   \<and> get_current_active_user env_ex db_guests ''tok-carol'' = Inl ValidationError"
proof -
  have r1: "resolves_to env_ex db_ex ''tok-alice'' alice" "UserInDB env_ex alice = Inr alice"
    "u_is_active alice"
    by (simp_all add: optional_ex_defs)
  have r2: "resolves_to env_ex db_ex ''tok-bob'' bob" "UserInDB env_ex bob = Inr bob"
    "\<not> u_is_active bob"
    by (simp_all add: optional_ex_defs)
  have r3: "jwt_decode env_ex ''garbage'' = None"
    by (simp add: env_ex_def)
  have r4: "resolves_to env_ex db_guests ''tok-carol'' carol"
    "UserInDB env_ex carol = Inl ValidationError"
    by (simp_all add: optional_ex_defs)
  note t = C10_optional_auth_resolver [where env = env_ex and db = db_ex
      and token = "Some ''tok-alice''" and u = alice and t = "''garbage''"]
  have "get_optional_current_user env_ex db_ex (Some ''tok-alice'') = Some alice"
    using t r1 by blast
  moreover have "get_optional_current_user env_ex db_ex (Some ''garbage'') = None"
    using t r3 by blast
  moreover have "get_optional_current_user env_ex db_ex (Some ''tok-bob'') = None
     \<and> get_current_active_user env_ex db_ex ''tok-bob''
         = Inl (HTTPException 400 ''Inactive user'')"
    using C10_optional_auth_resolver [where env = env_ex and db = db_ex
      and token = "Some ''tok-alice''" and u = alice and t = "''tok-bob''" and r = bob
      and v = bob] r2
    by blast
  moreover have "get_optional_current_user env_ex db_guests (Some ''tok-carol'') = None
     \<and> get_current_active_user env_ex db_guests ''tok-carol'' = Inl ValidationError"
    using C10_optional_auth_resolver [where env = env_ex and db = db_guests
      and token = "Some ''tok-alice''" and u = alice and t = "''tok-carol''" and r = carol
      and e = ValidationError] r4
    by blast
  moreover have "get_optional_current_user env_ex db_ex None = None"
    using t by blast
  ultimately show ?thesis using r1 r2 r3 r4 by blast
qed

text \<open>
  Claim C5 against the code. The first registration of \<open>a@b.c\<close> creates the row; a second
  registration with the identical body returns that same row; and a third with the same
  email but the names \<open>X\<close> and \<open>Y\<close> also returns the stored row (first name \<open>A\<close>, last name
  \<open>B\<close>) as a success, where the claim and the handler's own comment require 409.
\<close>

definition alice_create :: user_create where
  "alice_create = \<lparr>uc_email = ''a@b.c'', uc_first_name = ''A'', uc_last_name = ''B'',
                    uc_password = ''Password1!''\<rparr>"

definition users_empty :: auth_db where
  "users_empty = \<lparr>users = [], refresh_tokens = []\<rparr>"

theorem C5_same_email_other_name_returns_existing_row:
  "create_user users_empty alice_create ''u1'' ''hash1''
     = (Inr alice, \<lparr>users = [alice], refresh_tokens = []\<rparr>)
   \<and> create_user \<lparr>users = [alice], refresh_tokens = []\<rparr> alice_create ''u7'' ''hash7''
     = (Inr alice, \<lparr>users = [alice], refresh_tokens = []\<rparr>)
   \<and> create_user \<lparr>users = [alice], refresh_tokens = []\<rparr>
        (alice_create\<lparr>uc_first_name := ''X'', uc_last_name := ''Y''\<rparr>) ''u8'' ''hash8''
     = (Inr alice, \<lparr>users = [alice], refresh_tokens = []\<rparr>)"
  by (simp add: create_user_def users_empty_def alice_create_def alice_def Let_def)

section \<open>Python strings\<close>

text \<open>
  A Python \<open>str\<close> is a list of characters; the model's characters are the code points
  below 256. \<open>isspace\<close> is Python's \<open>str.isspace\<close> on one such character (it is also what
  the \<open>re\<close> module's \<open>\s\<close> matches): tab, line feed, vertical tab, form feed, carriage
  return, the four separators \<open>0x1C\<close> to \<open>0x1F\<close>, the space, \<open>0x85\<close> and \<open>0xA0\<close>.
\<close>

definition isspace :: "char \<Rightarrow> bool" where
  "isspace c = (of_char c \<in> {9, 10, 11, 12, 13, 28, 29, 30, 31, 32, 133, 160 :: nat})"

definition lstrip :: "string \<Rightarrow> string" where
  "lstrip s = dropWhile isspace s"

definition rstrip :: "string \<Rightarrow> string" where
  "rstrip s = rev (dropWhile isspace (rev s))"

definition strip :: "string \<Rightarrow> string" where
  "strip s = rstrip (lstrip s)"


section \<open>Row updates and deletes on dynamic tables (endpoints/tables.py)\<close>

text \<open>
  A statement sent to the database is its text with \<open>%s\<close> placeholders and the tuple of
  parameters, as the handler builds them. The database itself is a parameter \<open>run\<close> of the
  handlers: it takes the connection's state and a statement and answers with an error
  message (the exception psycopg raises) or the rows the statement returned or affected,
  and the new state. A handler that raises before \<open>commit\<close> leaves the state it started
  from.
\<close>

datatype sql_value =
  SqlNull
| SqlText string
| SqlInt int
| SqlBool bool
| SqlTimestamp timestamp


type_synonym row = "(string \<times> sql_value) list"
























section \<open>Storage worker upload (storage/endpoints/files.py)\<close>

text \<open>
  Bytes are characters. A path is the pair of its directory and its file name
  (\<open>Path.parent\<close> and \<open>Path.name\<close>); \<open>path_str\<close> is \<open>str\<close> of it. The filesystem holds the
  content of every file and the set of directories. The handler's effect is the list of
  filesystem operations it performs, in order; \<open>run_ops\<close> applies them. \<open>os.replace\<close> is
  the one operation \<open>Replace\<close>: the rename of the source onto the destination.

  The request body is the sequence of events the handler meets while it reads and
  writes: a chunk, or an error raised by the read or by the write of the temporary file,
  with the text \<open>str(e)\<close> of the exception. What the platform decides is a parameter, in
  \<open>storage_env\<close>: the path operations \<open>/\<close> (\<open>truediv\<close>) and \<open>Path.resolve\<close>,
  \<open>mimetypes.guess_type\<close>, the exception that \<open>makedirs(..., exist_ok=True)\<close> raises in a
  given filesystem (\<open>None\<close> when it succeeds), and the text of the exception that
  \<open>os.replace\<close> raises (\<open>None\<close> when it succeeds). The outcome of \<open>NamedTemporaryFile\<close> is
  the argument \<open>tmp\<close> of the handler: the text of the exception it raises, or the name of
  the file it has created in the directory it was given. \<open>unlink\<close> of the temporary file
  is taken to succeed.
\<close>

type_synonym path = "string \<times> string"

record filesystem =
  fs_files :: "path \<rightharpoonup> string"
  fs_dirs :: "string set"

datatype fs_op =
  Makedirs string
| Create path
| Write path string
| Unlink path
| Replace path path

fun apply_op :: "filesystem \<Rightarrow> fs_op \<Rightarrow> filesystem" where
  "apply_op fs (Makedirs d) = fs\<lparr>fs_dirs := insert d (fs_dirs fs)\<rparr>"
| "apply_op fs (Create p) = fs\<lparr>fs_files := (fs_files fs)(p \<mapsto> [])\<rparr>"
| "apply_op fs (Write p b) =
     (case fs_files fs p of
        None \<Rightarrow> fs
      | Some old \<Rightarrow> fs\<lparr>fs_files := (fs_files fs)(p \<mapsto> old @ b)\<rparr>)"
| "apply_op fs (Unlink p) = fs\<lparr>fs_files := (fs_files fs)(p := None)\<rparr>"
| "apply_op fs (Replace src dst) =
     (case fs_files fs src of
        None \<Rightarrow> fs
      | Some c \<Rightarrow> fs\<lparr>fs_files := ((fs_files fs)(src := None))(dst \<mapsto> c)\<rparr>)"

definition run_ops :: "filesystem \<Rightarrow> fs_op list \<Rightarrow> filesystem" where
  "run_ops fs ops = foldl apply_op fs ops"

datatype io_event =
  Chunk string
| Io_error string

record multipart_file =
  mf_content_type :: "string option"
  mf_reads :: "io_event list"

record upload_request =
  up_content_type :: "string option"
  up_stream :: "io_event list"
  up_form :: "string + multipart_file option"

record storage_env =
  BASE_PATH :: string
  truediv :: "string \<Rightarrow> string \<Rightarrow> string"
  resolve :: "string \<Rightarrow> path"
  guess_type :: "string \<Rightarrow> string option"
  os_makedirs :: "filesystem \<Rightarrow> string \<Rightarrow> py_exception option"
  os_replace :: "filesystem \<Rightarrow> path \<Rightarrow> path \<Rightarrow> string option"

record file_metadata =
  fm_name :: string
  fm_path :: string
  fm_size :: nat
  fm_content_type :: string

definition path_str :: "path \<Rightarrow> string" where
  "path_str p = fst p @ ''/'' @ snd p"

text \<open>\<open>needle in s\<close> on strings.\<close>

fun contains :: "string \<Rightarrow> string \<Rightarrow> bool" where
  "contains [] needle = (needle = [])"
| "contains (c # cs) needle = (startswith (c # cs) needle \<or> contains cs needle)"

text \<open>\<open>Path.exists\<close>: the path names a file or a directory.\<close>

definition path_exists :: "filesystem \<Rightarrow> path \<Rightarrow> bool" where
  "path_exists fs p = (p \<in> dom (fs_files fs) \<or> path_str p \<in> fs_dirs fs)"

definition safe_join :: "storage_env \<Rightarrow> path \<Rightarrow> string \<Rightarrow> py_exception + path" where
  "safe_join env base part =
     (let result = resolve env (truediv env (path_str base) part)
      in if \<not> startswith (path_str result) (path_str (resolve env (path_str base)))
         then Inl (HTTPException 400 ''Invalid path'')
         else Inr result)"

text \<open>The raw-stream loop \<open>async for chunk in request.stream()\<close>: every chunk is written
  to the temporary file; an error ends the loop. The result is the error or the total
  size, with the writes performed.\<close>

fun write_stream :: "path \<Rightarrow> io_event list \<Rightarrow> (string + nat) \<times> fs_op list" where
  "write_stream tmp [] = (Inr 0, [])"
| "write_stream tmp (Io_error e # es) = (Inl e, [])"
| "write_stream tmp (Chunk b # es) =
     (case write_stream tmp es of
        (Inl e, ops) \<Rightarrow> (Inl e, Write tmp b # ops)
      | (Inr n, ops) \<Rightarrow> (Inr (length b + n), Write tmp b # ops))"

text \<open>The multipart loop \<open>while chunk := await file.read(CHUNK_SIZE)\<close>: it also ends at
  the first empty chunk.\<close>

fun write_file :: "path \<Rightarrow> io_event list \<Rightarrow> (string + nat) \<times> fs_op list" where
  "write_file tmp [] = (Inr 0, [])"
| "write_file tmp (Io_error e # es) = (Inl e, [])"
| "write_file tmp (Chunk b # es) =
     (if b = [] then (Inr 0, [])
      else case write_file tmp es of
             (Inl e, ops) \<Rightarrow> (Inl e, Write tmp b # ops)
           | (Inr n, ops) \<Rightarrow> (Inr (length b + n), Write tmp b # ops))"

definition octet_stream :: string where
  "octet_stream = ''application/octet-stream''"

definition guess_or_default :: "storage_env \<Rightarrow> string \<Rightarrow> string" where
  "guess_or_default env path =
     (case guess_type env path of
        None \<Rightarrow> octet_stream
      | Some t \<Rightarrow> if t = [] then octet_stream else t)"

text \<open>The end of the \<open>try\<close> block, after the temporary file is closed: the empty check, then
  the rename. \<open>fs\<close> is the filesystem at that moment. An exception of \<open>os.replace\<close> is
  handled like every other: the temporary file is unlinked and the answer is 500.\<close>

definition finish_upload ::
  "storage_env \<Rightarrow> filesystem \<Rightarrow> path \<Rightarrow> path \<Rightarrow> string \<Rightarrow> nat \<Rightarrow> string
     \<Rightarrow> (py_exception + file_metadata) \<times> fs_op list" where
  "finish_upload env fs tmp_path file_path path total_size actual_content_type =
     (if total_size = 0 then
        (Inl (HTTPException 422 ''File cannot be empty''), [Unlink tmp_path])
      else
        case os_replace env fs tmp_path file_path of
          Some e \<Rightarrow> (Inl (HTTPException 500 (''Upload failed: '' @ e)), [Unlink tmp_path])
        | None \<Rightarrow>
            (Inr \<lparr>fm_name = snd file_path, fm_path = path, fm_size = total_size,
                  fm_content_type = actual_content_type\<rparr>,
             [Replace tmp_path file_path]))"

definition is_multipart :: "upload_request \<Rightarrow> bool" where
  "is_multipart request =
     contains (case up_content_type request of None \<Rightarrow> [] | Some c \<Rightarrow> c)
       ''multipart/form-data''"

text \<open>The body of the \<open>async with\<close> block: the request body is copied to the temporary
  file. The result is the exception raised there, or the total size and the content type,
  with the writes performed.\<close>

definition receive_body ::
  "storage_env \<Rightarrow> path \<Rightarrow> string \<Rightarrow> upload_request
     \<Rightarrow> (py_exception + nat \<times> string) \<times> fs_op list" where
  "receive_body env tmp_path path request =
     (let request_content_type =
            (case up_content_type request of None \<Rightarrow> [] | Some c \<Rightarrow> c)
      in if is_multipart request then
           (case up_form request of
              Inl e \<Rightarrow> (Inl (HTTPException 500 (''Upload failed: '' @ e)), [])
            | Inr None \<Rightarrow> (Inl (HTTPException 400 ''No file provided in multipart form''), [])
            | Inr (Some file) \<Rightarrow>
                (case write_file tmp_path (mf_reads file) of
                   (Inl e, writes) \<Rightarrow>
                     (Inl (HTTPException 500 (''Upload failed: '' @ e)), writes)
                 | (Inr total_size, writes) \<Rightarrow>
                     (Inr (total_size,
                           case mf_content_type file of
                             None \<Rightarrow> guess_or_default env path
                           | Some t \<Rightarrow> if t = [] then guess_or_default env path else t),
                      writes)))
         else
           (case write_stream tmp_path (up_stream request) of
              (Inl e, writes) \<Rightarrow> (Inl (HTTPException 500 (''Upload failed: '' @ e)), writes)
            | (Inr total_size, writes) \<Rightarrow>
                (Inr (total_size,
                      if request_content_type \<noteq> [] \<and> request_content_type \<noteq> octet_stream
                      then request_content_type
                      else guess_or_default env path),
                 writes)))"

text \<open>
  The handler. \<open>makedirs\<close> runs before the \<open>try\<close> block: its exception leaves the handler
  unhandled, with nothing written. Inside the \<open>try\<close> block, an exception of
  \<open>NamedTemporaryFile\<close> leaves \<open>tmp_path\<close> unset, so nothing is unlinked.
\<close>

definition upload_file ::
  "storage_env \<Rightarrow> filesystem \<Rightarrow> string \<Rightarrow> string \<Rightarrow> upload_request \<Rightarrow> string + string
     \<Rightarrow> (py_exception + file_metadata) \<times> fs_op list" where
  "upload_file env fs bucket path request tmp =
     (let bucket_path = (BASE_PATH env, bucket)
      in if \<not> path_exists fs bucket_path then (Inl (HTTPException 404 ''Bucket not found''), [])
         else
           case safe_join env bucket_path path of
             Inl e \<Rightarrow> (Inl e, [])
           | Inr file_path \<Rightarrow>
               (case os_makedirs env fs (fst file_path) of
                  Some e \<Rightarrow> (Inl e, [])
                | None \<Rightarrow>
                    (case tmp of
                       Inl e \<Rightarrow>
                         (Inl (HTTPException 500 (''Upload failed: '' @ e)),
                          [Makedirs (fst file_path)])
                     | Inr tmp_name \<Rightarrow>
                         (let tmp_path = (fst file_path, tmp_name)
                          in case receive_body env tmp_path path request of
                               (Inl e, writes) \<Rightarrow>
                                 (Inl e,
                                  [Makedirs (fst file_path), Create tmp_path] @ writes
                                    @ [Unlink tmp_path])
                             | (Inr (total_size, actual_content_type), writes) \<Rightarrow>
                                 (case finish_upload env
                                         (run_ops fs
                                            ([Makedirs (fst file_path), Create tmp_path]
                                               @ writes))
                                         tmp_path file_path path total_size
                                         actual_content_type of
                                    (r, last_ops) \<Rightarrow>
                                      (r, [Makedirs (fst file_path), Create tmp_path] @ writes
                                            @ last_ops))))))"

subsection \<open>Properties of the upload\<close>

text \<open>The chunks the loops write, and whether they reach the end of the body.\<close>

fun stream_chunks :: "io_event list \<Rightarrow> string list" where
  "stream_chunks [] = []"
| "stream_chunks (Io_error e # es) = []"
| "stream_chunks (Chunk b # es) = b # stream_chunks es"

fun stream_complete :: "io_event list \<Rightarrow> bool" where
  "stream_complete [] = True"
| "stream_complete (Io_error e # es) = False"
| "stream_complete (Chunk b # es) = stream_complete es"

fun file_chunks :: "io_event list \<Rightarrow> string list" where
  "file_chunks [] = []"
| "file_chunks (Io_error e # es) = []"
| "file_chunks (Chunk b # es) = (if b = [] then [] else b # file_chunks es)"

fun file_complete :: "io_event list \<Rightarrow> bool" where
  "file_complete [] = True"
| "file_complete (Io_error e # es) = False"
| "file_complete (Chunk b # es) = (b = [] \<or> file_complete es)"

definition written_chunks :: "upload_request \<Rightarrow> string list" where
  "written_chunks request =
     (if is_multipart request then
        (case up_form request of
           Inr (Some file) \<Rightarrow> file_chunks (mf_reads file)
         | _ \<Rightarrow> [])
      else stream_chunks (up_stream request))"

definition body_complete :: "upload_request \<Rightarrow> bool" where
  "body_complete request =
     (if is_multipart request then
        (case up_form request of
           Inr (Some file) \<Rightarrow> file_complete (mf_reads file)
         | _ \<Rightarrow> False)
      else stream_complete (up_stream request))"

lemma write_stream_ops: "snd (write_stream tmp es) = map (Write tmp) (stream_chunks es)"
proof (induction es)
  case Nil
  show ?case by simp
next
  case (Cons ev es)
  then show ?case
    by (cases ev; cases "write_stream tmp es"; cases "fst (write_stream tmp es)") simp_all
qed

lemma write_stream_result:
  "fst (write_stream tmp es) =
     (if stream_complete es then Inr (length (concat (stream_chunks es)))
      else Inl (case fst (write_stream tmp es) of Inl e \<Rightarrow> e | Inr n \<Rightarrow> []))"
proof (induction es)
  case Nil
  show ?case by simp
next
  case (Cons ev es)
  then show ?case
    by (cases ev; cases "write_stream tmp es"; cases "fst (write_stream tmp es)";
        cases "stream_complete es") simp_all
qed

lemma write_file_ops: "snd (write_file tmp es) = map (Write tmp) (file_chunks es)"
proof (induction es)
  case Nil
  show ?case by simp
next
  case (Cons ev es)
  then show ?case
    by (cases ev; cases "write_file tmp es"; cases "fst (write_file tmp es)") simp_all
qed

lemma write_file_result:
  "fst (write_file tmp es) =
     (if file_complete es then Inr (length (concat (file_chunks es)))
      else Inl (case fst (write_file tmp es) of Inl e \<Rightarrow> e | Inr n \<Rightarrow> []))"
proof (induction es)
  case Nil
  show ?case by simp
next
  case (Cons ev es)
  then show ?case
    by (cases ev; cases "write_file tmp es"; cases "fst (write_file tmp es)";
        cases "file_complete es") simp_all
qed

lemma receive_body_ops:
  "snd (receive_body env tmp path request) = map (Write tmp) (written_chunks request)"
proof (cases "is_multipart request")
  case True
  show ?thesis
  proof (cases "up_form request")
    case (Inl e)
    with True show ?thesis by (simp add: receive_body_def written_chunks_def Let_def)
  next
    case (Inr fo)
    show ?thesis
    proof (cases fo)
      case None
      with True Inr show ?thesis by (simp add: receive_body_def written_chunks_def Let_def)
    next
      case (Some mf)
      with True Inr write_file_ops [of tmp "mf_reads mf"] show ?thesis
        by (cases "write_file tmp (mf_reads mf)"; cases "fst (write_file tmp (mf_reads mf))")
           (simp_all add: receive_body_def written_chunks_def Let_def)
    qed
  qed
next
  case False
  with write_stream_ops [of tmp "up_stream request"] show ?thesis
    by (cases "write_stream tmp (up_stream request)";
        cases "fst (write_stream tmp (up_stream request))")
       (simp_all add: receive_body_def written_chunks_def Let_def)
qed

lemma receive_body_complete:
  assumes "body_complete request"
  shows "\<exists>ct. fst (receive_body env tmp path request)
           = Inr (length (concat (written_chunks request)), ct)"
proof (cases "is_multipart request")
  case True
  with assms obtain mf where f: "up_form request = Inr (Some mf)"
    and c: "file_complete (mf_reads mf)"
    by (auto simp: body_complete_def split: sum.splits option.splits)
  from write_file_result [of tmp "mf_reads mf"] c
  have "fst (write_file tmp (mf_reads mf)) = Inr (length (concat (file_chunks (mf_reads mf))))"
    by simp
  with True f show ?thesis
    by (cases "write_file tmp (mf_reads mf)") (simp add: receive_body_def written_chunks_def Let_def)
next
  case False
  with assms have c: "stream_complete (up_stream request)"
    by (simp add: body_complete_def)
  from write_stream_result [of tmp "up_stream request"] c
  have "fst (write_stream tmp (up_stream request))
          = Inr (length (concat (stream_chunks (up_stream request))))"
    by simp
  with False show ?thesis
    by (cases "write_stream tmp (up_stream request)") (simp add: receive_body_def written_chunks_def Let_def)
qed

lemma receive_body_incomplete:
  assumes "\<not> body_complete request"
  shows "\<exists>e. fst (receive_body env tmp path request) = Inl e"
proof (cases "is_multipart request")
  case True
  show ?thesis
  proof (cases "up_form request")
    case (Inl e)
    with True show ?thesis by (simp add: receive_body_def Let_def)
  next
    case (Inr fo)
    show ?thesis
    proof (cases fo)
      case None
      with True Inr show ?thesis by (simp add: receive_body_def Let_def)
    next
      case (Some mf)
      with True Inr assms have c: "\<not> file_complete (mf_reads mf)"
        by (simp add: body_complete_def)
      from write_file_result [of tmp "mf_reads mf"] c
      obtain e where "fst (write_file tmp (mf_reads mf)) = Inl e"
        by simp
      with True Inr Some show ?thesis
        by (cases "write_file tmp (mf_reads mf)") (simp add: receive_body_def Let_def)
    qed
  qed
next
  case False
  with assms have c: "\<not> stream_complete (up_stream request)"
    by (simp add: body_complete_def)
  from write_stream_result [of tmp "up_stream request"] c
  obtain e where "fst (write_stream tmp (up_stream request)) = Inl e"
    by simp
  with False show ?thesis
    by (cases "write_stream tmp (up_stream request)") (simp add: receive_body_def Let_def)
qed

text \<open>Running the writes of the loop appends the chunks to the temporary file.\<close>

lemma run_writes:
  assumes "fs_files fs tmp = Some c"
  shows "foldl apply_op fs (map (Write tmp) bs) = fs\<lparr>fs_files := (fs_files fs)(tmp \<mapsto> c @ concat bs)\<rparr>"
  using assms
proof (induction bs arbitrary: fs c)
  case Nil
  then have "(fs_files fs)(tmp \<mapsto> c) = fs_files fs"
    by (simp add: fun_upd_idem)
  then show ?case by simp
next
  case (Cons b bs)
  let ?fs = "fs\<lparr>fs_files := (fs_files fs)(tmp \<mapsto> c @ b)\<rparr>"
  have step: "apply_op fs (Write tmp b) = ?fs"
    using Cons.prems by simp
  have "fs_files ?fs tmp = Some (c @ b)" by simp
  from Cons.IH [OF this]
  have ih: "foldl apply_op ?fs (map (Write tmp) bs)
      = ?fs\<lparr>fs_files := (fs_files ?fs)(tmp \<mapsto> (c @ b) @ concat bs)\<rparr>" .
  have "foldl apply_op fs (map (Write tmp) (b # bs)) = foldl apply_op ?fs (map (Write tmp) bs)"
    by (simp only: list.map foldl_Cons step)
  also note ih
  also have "?fs\<lparr>fs_files := (fs_files ?fs)(tmp \<mapsto> (c @ b) @ concat bs)\<rparr>
      = fs\<lparr>fs_files := (fs_files fs)(tmp \<mapsto> c @ concat (b # bs))\<rparr>"
    by simp
  finally show ?case .
qed


text \<open>The target of an upload, and the filesystem when the body has been written to the
  temporary file.\<close>

definition upload_target :: "storage_env \<Rightarrow> string \<Rightarrow> string \<Rightarrow> path" where
  "upload_target env bucket path =
     resolve env (truediv env (path_str (BASE_PATH env, bucket)) path)"

definition body_written :: "filesystem \<Rightarrow> path \<Rightarrow> path \<Rightarrow> upload_request \<Rightarrow> filesystem" where
  "body_written fs file_path tmp_path request =
     run_ops fs ([Makedirs (fst file_path), Create tmp_path]
                   @ map (Write tmp_path) (written_chunks request))"

text \<open>The upload passes the two checks before \<open>makedirs\<close>: the bucket exists and the path is
  inside it.\<close>

definition upload_admitted :: "storage_env \<Rightarrow> filesystem \<Rightarrow> string \<Rightarrow> string \<Rightarrow> bool" where
  "upload_admitted env fs bucket path =
     (path_exists fs (BASE_PATH env, bucket)
      \<and> safe_join env (BASE_PATH env, bucket) path = Inr (upload_target env bucket path))"

lemma safe_join_target:
  "safe_join env (BASE_PATH env, bucket) path = Inr fp \<Longrightarrow>
   fp = upload_target env bucket path"
  by (simp add: safe_join_def upload_target_def Let_def split: if_splits)

lemma run_upload_ops_unlink:
  assumes "tmp \<notin> dom (fs_files fs)"
  shows "fs_files (run_ops fs ([Makedirs d, Create tmp] @ map (Write tmp) bs @ [Unlink tmp]))
           = fs_files fs"
proof -
  let ?fs1 = "fs\<lparr>fs_dirs := insert d (fs_dirs fs), fs_files := (fs_files fs)(tmp \<mapsto> [])\<rparr>"
  have f1: "fs_files ?fs1 tmp = Some []" by simp
  have "run_ops fs ([Makedirs d, Create tmp] @ map (Write tmp) bs @ [Unlink tmp])
      = apply_op (foldl apply_op ?fs1 (map (Write tmp) bs)) (Unlink tmp)"
    by (simp add: run_ops_def)
  also have "foldl apply_op ?fs1 (map (Write tmp) bs)
      = ?fs1\<lparr>fs_files := (fs_files ?fs1)(tmp \<mapsto> [] @ concat bs)\<rparr>"
    by (rule run_writes [OF f1])
  finally have "fs_files (run_ops fs ([Makedirs d, Create tmp] @ map (Write tmp) bs @ [Unlink tmp]))
      = (fs_files fs)(tmp := None)"
    by simp
  moreover have "(fs_files fs)(tmp := None) = fs_files fs"
    using assms by (simp add: fun_upd_idem domIff)
  ultimately show ?thesis by simp
qed

lemma run_upload_ops_replace:
  "fs_files (run_ops fs ([Makedirs d, Create tmp] @ map (Write tmp) bs @ [Replace tmp dst]))
     = ((fs_files fs)(tmp := None))(dst \<mapsto> concat bs)"
proof -
  let ?fs1 = "fs\<lparr>fs_dirs := insert d (fs_dirs fs), fs_files := (fs_files fs)(tmp \<mapsto> [])\<rparr>"
  have f1: "fs_files ?fs1 tmp = Some []" by simp
  have "run_ops fs ([Makedirs d, Create tmp] @ map (Write tmp) bs @ [Replace tmp dst])
      = apply_op (foldl apply_op ?fs1 (map (Write tmp) bs)) (Replace tmp dst)"
    by (simp add: run_ops_def)
  also have "foldl apply_op ?fs1 (map (Write tmp) bs)
      = ?fs1\<lparr>fs_files := (fs_files ?fs1)(tmp \<mapsto> [] @ concat bs)\<rparr>"
    by (rule run_writes [OF f1])
  finally show ?thesis by simp
qed

lemma upload_file_admitted:
  assumes "upload_admitted env fs bucket path"
    and "os_makedirs env fs (fst (upload_target env bucket path)) = None"
  shows "upload_file env fs bucket path request (Inr name) =
     (case receive_body env (fst (upload_target env bucket path), name) path request of
        (Inl e, writes) \<Rightarrow>
          (Inl e,
           [Makedirs (fst (upload_target env bucket path)),
            Create (fst (upload_target env bucket path), name)] @ writes
             @ [Unlink (fst (upload_target env bucket path), name)])
      | (Inr (total_size, actual_content_type), writes) \<Rightarrow>
          (case finish_upload env
                  (run_ops fs
                     ([Makedirs (fst (upload_target env bucket path)),
                       Create (fst (upload_target env bucket path), name)] @ writes))
                  (fst (upload_target env bucket path), name)
                  (upload_target env bucket path) path total_size actual_content_type of
             (r, last_ops) \<Rightarrow>
               (r, [Makedirs (fst (upload_target env bucket path)),
                    Create (fst (upload_target env bucket path), name)] @ writes
                     @ last_ops)))"
  using assms
  unfolding upload_file_def upload_admitted_def Let_def
  by (simp only: if_not_P if_False not_not simp_thms sum.case option.case)

text \<open>The five shapes of an upload: rejected by one of the two checks; ended by the
  exception of \<open>makedirs\<close>; failed to create the temporary file; failed later, with the
  temporary file created, written and unlinked; stored, with the temporary file created,
  written with the whole body and renamed onto the target.\<close>

lemma upload_file_shapes:
  assumes up: "upload_file env fs bucket path request tmp = (res, ops)"
  shows "((\<exists>e. res = Inl e) \<and> ops = [] \<and> \<not> upload_admitted env fs bucket path)
     \<or> (upload_admitted env fs bucket path
         \<and> (\<exists>e. os_makedirs env fs (fst (upload_target env bucket path)) = Some e
                 \<and> res = Inl e)
         \<and> ops = [])
     \<or> (upload_admitted env fs bucket path
         \<and> os_makedirs env fs (fst (upload_target env bucket path)) = None
         \<and> (\<exists>e. tmp = Inl e \<and> res = Inl (HTTPException 500 (''Upload failed: '' @ e)))
         \<and> ops = [Makedirs (fst (upload_target env bucket path))])
     \<or> (upload_admitted env fs bucket path
         \<and> os_makedirs env fs (fst (upload_target env bucket path)) = None
         \<and> (\<exists>name. tmp = Inr name
              \<and> (\<exists>e. res = Inl e)
              \<and> (body_complete request \<and> concat (written_chunks request) = []
                    \<longrightarrow> res = Inl (HTTPException 422 ''File cannot be empty''))
              \<and> (body_complete request \<and> concat (written_chunks request) \<noteq> []
                    \<longrightarrow> os_replace env
                          (body_written fs (upload_target env bucket path)
                             (fst (upload_target env bucket path), name) request)
                          (fst (upload_target env bucket path), name)
                          (upload_target env bucket path) \<noteq> None)
              \<and> ops = [Makedirs (fst (upload_target env bucket path)),
                       Create (fst (upload_target env bucket path), name)]
                      @ map (Write (fst (upload_target env bucket path), name))
                          (written_chunks request)
                      @ [Unlink (fst (upload_target env bucket path), name)]))
     \<or> (upload_admitted env fs bucket path
         \<and> os_makedirs env fs (fst (upload_target env bucket path)) = None
         \<and> body_complete request \<and> concat (written_chunks request) \<noteq> []
         \<and> (\<exists>name. tmp = Inr name
              \<and> os_replace env
                   (body_written fs (upload_target env bucket path)
                      (fst (upload_target env bucket path), name) request)
                   (fst (upload_target env bucket path), name)
                   (upload_target env bucket path) = None
              \<and> (\<exists>ct. res = Inr \<lparr>fm_name = snd (upload_target env bucket path),
                                   fm_path = path,
                                   fm_size = length (concat (written_chunks request)),
                                   fm_content_type = ct\<rparr>)
              \<and> ops = [Makedirs (fst (upload_target env bucket path)),
                       Create (fst (upload_target env bucket path), name)]
                      @ map (Write (fst (upload_target env bucket path), name))
                          (written_chunks request)
                      @ [Replace (fst (upload_target env bucket path), name)
                           (upload_target env bucket path)]))"
proof -
  let ?bp = "(BASE_PATH env, bucket)"
  let ?target = "upload_target env bucket path"
  show ?thesis
  proof (cases "path_exists fs ?bp")
    case False
    with up show ?thesis
      by (auto simp: upload_file_def upload_admitted_def)
  next
    case True
    show ?thesis
    proof (cases "safe_join env ?bp path")
      case (Inl e)
      with True up show ?thesis
        by (auto simp: upload_file_def upload_admitted_def)
    next
      case (Inr fp)
      then have fp: "fp = ?target" by (rule safe_join_target)
      have adm: "upload_admitted env fs bucket path"
        using True Inr fp by (simp add: upload_admitted_def)
      show ?thesis
      proof (cases "os_makedirs env fs (fst ?target)")
        case (Some e)
        with True Inr fp up have "res = Inl e" "ops = []"
          by (simp_all add: upload_file_def)
        with adm Some show ?thesis by simp
      next
        case None
        show ?thesis
        proof (cases tmp)
          case (Inl e)
          with True Inr fp None up
          have "res = Inl (HTTPException 500 (''Upload failed: '' @ e))"
            "ops = [Makedirs (fst ?target)]"
            by (simp_all add: upload_file_def)
          with adm None Inl show ?thesis by simp
        next
          case name: (Inr name)
          let ?tmp = "(fst ?target, name)"
          note eq = upload_file_admitted [OF adm None, of request name]
          obtain r w where rb: "receive_body env ?tmp path request = (r, w)"
            by (cases "receive_body env ?tmp path request")
          have w: "w = map (Write ?tmp) (written_chunks request)"
            using receive_body_ops [of env ?tmp path request] rb by simp
          show ?thesis
          proof (cases r)
            case (Inl e)
            with up eq rb name have "res = Inl e"
              and "ops = [Makedirs (fst ?target), Create ?tmp] @ w @ [Unlink ?tmp]"
              by simp_all
            moreover have "\<not> body_complete request"
              using receive_body_complete [of request env ?tmp path] rb Inl by auto
            ultimately show ?thesis using adm None name w by simp
          next
            case (Inr nc)
            obtain n ct where nc: "nc = (n, ct)" by (cases nc)
            have bc: "body_complete request"
              using receive_body_incomplete [of request env ?tmp path] rb Inr by auto
            have n: "n = length (concat (written_chunks request))"
              using receive_body_complete [OF bc, of env ?tmp path] rb Inr nc by simp
            let ?fs' = "body_written fs ?target ?tmp request"
            have fs': "run_ops fs ([Makedirs (fst ?target), Create ?tmp] @ w) = ?fs'"
              by (simp add: body_written_def w)
            obtain r2 l2 where fin: "finish_upload env ?fs' ?tmp ?target path n ct = (r2, l2)"
              by (cases "finish_upload env ?fs' ?tmp ?target path n ct")
            from up eq rb Inr nc fin name fs'
            have res: "res = r2" and ops: "ops = [Makedirs (fst ?target), Create ?tmp] @ w @ l2"
              by simp_all
            show ?thesis
            proof (cases "n = 0")
              case True
              with fin have "r2 = Inl (HTTPException 422 ''File cannot be empty'')"
                "l2 = [Unlink ?tmp]"
                by (simp_all add: finish_upload_def)
              with res ops adm None name w n True show ?thesis by simp
            next
              case False
              then have ne: "concat (written_chunks request) \<noteq> []" using n by simp
              show ?thesis
              proof (cases "os_replace env ?fs' ?tmp ?target")
                case (Some e)
                with False fin
                have "r2 = Inl (HTTPException 500 (''Upload failed: '' @ e))" "l2 = [Unlink ?tmp]"
                  by (simp_all add: finish_upload_def)
                with res ops adm None name w ne Some show ?thesis by simp
              next
                case nr: None
                with False fin
                have "r2 = Inr \<lparr>fm_name = snd ?target, fm_path = path, fm_size = n,
                                fm_content_type = ct\<rparr>"
                  "l2 = [Replace ?tmp ?target]"
                  by (simp_all add: finish_upload_def)
                with res ops adm None name w ne bc n nr show ?thesis by simp
              qed
            qed
          qed
        qed
      qed
    qed
  qed
qed

text \<open>
  Claim C7. Let the name of the temporary file be fresh, as \<open>NamedTemporaryFile\<close>
  guarantees. (1) If the upload fails, for whatever reason, the handler has touched no
  file but the temporary one, which lies in the target's own directory and which it has
  unlinked: the file map is what it was, so the file at the target path, or its absence,
  is unchanged. (2) A body received completely with total size zero is answered 422, the
  unlink of the temporary file being the last operation. (3) The upload succeeds exactly
  when it passes the two checks, \<open>makedirs\<close> and \<open>NamedTemporaryFile\<close> raise nothing, the body
  is received completely and is not empty, and \<open>os.replace\<close> raises nothing. (4) When it
  succeeds, the operations are: create the temporary file in the target's directory,
  write every chunk of the body to it, and, last, one \<open>Replace\<close> of the target by the
  temporary file; the target then holds the whole body, and the answer carries its size.
\<close>

theorem C7_upload_atomic_write:
  assumes up: "upload_file env fs bucket path request tmp = (res, ops)"
    and fresh: "\<forall>name. tmp = Inr name
                  \<longrightarrow> (fst (upload_target env bucket path), name) \<notin> dom (fs_files fs)"
  shows "((\<exists>e. res = Inl e) \<longrightarrow>
          fs_files (run_ops fs ops) = fs_files fs
          \<and> (\<forall>op \<in> set ops.
                op = Makedirs (fst (upload_target env bucket path))
                \<or> (\<exists>name. tmp = Inr name
                      \<and> (op = Create (fst (upload_target env bucket path), name)
                          \<or> (\<exists>b. op = Write (fst (upload_target env bucket path), name) b)
                          \<or> op = Unlink (fst (upload_target env bucket path), name)))))
     \<and> (upload_admitted env fs bucket path
          \<and> os_makedirs env fs (fst (upload_target env bucket path)) = None
          \<and> tmp = Inr name
          \<and> body_complete request \<and> concat (written_chunks request) = []
          \<longrightarrow> res = Inl (HTTPException 422 ''File cannot be empty'')
              \<and> ops \<noteq> []
              \<and> last ops = Unlink (fst (upload_target env bucket path), name))
     \<and> ((\<exists>m. res = Inr m) \<longleftrightarrow>
          upload_admitted env fs bucket path
          \<and> os_makedirs env fs (fst (upload_target env bucket path)) = None
          \<and> body_complete request \<and> concat (written_chunks request) \<noteq> []
          \<and> (\<exists>name. tmp = Inr name
                \<and> os_replace env
                     (body_written fs (upload_target env bucket path)
                        (fst (upload_target env bucket path), name) request)
                     (fst (upload_target env bucket path), name)
                     (upload_target env bucket path) = None))
     \<and> (\<forall>m. res = Inr m \<longrightarrow>
          fm_name m = snd (upload_target env bucket path) \<and> fm_path m = path
          \<and> fm_size m = length (concat (written_chunks request))
          \<and> (\<exists>name. tmp = Inr name
                \<and> ops = [Makedirs (fst (upload_target env bucket path)),
                         Create (fst (upload_target env bucket path), name)]
                        @ map (Write (fst (upload_target env bucket path), name))
                            (written_chunks request)
                        @ [Replace (fst (upload_target env bucket path), name)
                             (upload_target env bucket path)]
                \<and> fs_files (run_ops fs ops)
                    = ((fs_files fs)((fst (upload_target env bucket path), name) := None))
                        (upload_target env bucket path
                           \<mapsto> concat (written_chunks request))))"
proof -
  let ?target = "upload_target env bucket path"
  let ?tp = "\<lambda>name. (fst ?target, name)"
  let ?W = "\<lambda>name. map (Write (?tp name)) (written_chunks request)"
  from upload_file_shapes [OF up]
  consider (rejected) "\<exists>e. res = Inl e" "ops = []" "\<not> upload_admitted env fs bucket path"
    | (makedirs) e where "upload_admitted env fs bucket path"
        "os_makedirs env fs (fst ?target) = Some e" "res = Inl e" "ops = []"
    | (notmp) e where "upload_admitted env fs bucket path"
        "os_makedirs env fs (fst ?target) = None" "tmp = Inl e"
        "res = Inl (HTTPException 500 (''Upload failed: '' @ e))"
        "ops = [Makedirs (fst ?target)]"
    | (failed) n e where "upload_admitted env fs bucket path"
        "os_makedirs env fs (fst ?target) = None" "tmp = Inr n" "res = Inl e"
        "body_complete request \<and> concat (written_chunks request) = []
           \<longrightarrow> res = Inl (HTTPException 422 ''File cannot be empty'')"
        "body_complete request \<and> concat (written_chunks request) \<noteq> []
           \<longrightarrow> os_replace env (body_written fs ?target (?tp n) request) (?tp n) ?target \<noteq> None"
        "ops = [Makedirs (fst ?target), Create (?tp n)] @ ?W n @ [Unlink (?tp n)]"
    | (stored) n ct where "upload_admitted env fs bucket path"
        "os_makedirs env fs (fst ?target) = None"
        "body_complete request" "concat (written_chunks request) \<noteq> []" "tmp = Inr n"
        "os_replace env (body_written fs ?target (?tp n) request) (?tp n) ?target = None"
        "res = Inr \<lparr>fm_name = snd ?target, fm_path = path,
                     fm_size = length (concat (written_chunks request)),
                     fm_content_type = ct\<rparr>"
        "ops = [Makedirs (fst ?target), Create (?tp n)] @ ?W n @ [Replace (?tp n) ?target]"
    by blast
  then show ?thesis
  proof cases
    case rejected
    then show ?thesis by (auto simp: run_ops_def)
  next
    case makedirs
    then show ?thesis by (auto simp: run_ops_def)
  next
    case notmp
    then show ?thesis by (auto simp: run_ops_def)
  next
    case failed
    have fr: "?tp n \<notin> dom (fs_files fs)"
      using fresh failed(3) by simp
    have same: "fs_files (run_ops fs ops) = fs_files fs"
      unfolding failed(7) by (rule run_upload_ops_unlink [OF fr])
    have only: "\<forall>op \<in> set ops.
                op = Makedirs (fst ?target)
                \<or> (\<exists>name. tmp = Inr name
                      \<and> (op = Create (?tp name) \<or> (\<exists>b. op = Write (?tp name) b)
                          \<or> op = Unlink (?tp name)))"
      unfolding failed(7) failed(3) by auto
    have l: "ops \<noteq> []" "last ops = Unlink (?tp n)"
      unfolding failed(7) by simp_all
    have c: "\<not> (body_complete request \<and> concat (written_chunks request) \<noteq> []
          \<and> (\<exists>name. tmp = Inr name
                \<and> os_replace env (body_written fs ?target (?tp name) request) (?tp name) ?target
                    = None))"
      using failed(6) failed(3) by auto
    have nm: "\<not> (\<exists>m. res = Inr m)" using failed(4) by simp
    show ?thesis
      using same only l c nm failed(3,4,5) by auto
  next
    case stored
    have files: "fs_files (run_ops fs ops)
        = ((fs_files fs)(?tp n := None))(?target \<mapsto> concat (written_chunks request))"
      unfolding stored(8) by (rule run_upload_ops_replace)
    show ?thesis
      using files stored by auto
  qed
qed

subsection \<open>A concrete bucket\<close>

text \<open>The bucket \<open>docs\<close> holds the file \<open>a.txt\<close>. In \<open>fs_blocked\<close> the path of the bucket is
  a regular file, so \<open>makedirs\<close> of it raises.\<close>

definition storage_ex :: storage_env where
  "storage_ex = \<lparr>BASE_PATH = ''/data'',
                 truediv = (\<lambda>a b. a @ ''/'' @ b),
                 resolve = (\<lambda>s. if s = ''/data/docs'' then (''/data'', ''docs'')
                                 else (''/data/docs'', ''a.txt'')),
                 guess_type = (\<lambda>p. Some ''text/plain''),
                 os_makedirs = (\<lambda>fs d. if fs_files fs (''/data'', ''docs'') = None then None
                                        else Some (OSError ''File exists'')),
                 os_replace = (\<lambda>fs src dst. if path_str dst \<in> fs_dirs fs
                                            then Some ''Is a directory'' else None)\<rparr>"

definition fs_ex :: filesystem where
  "fs_ex = \<lparr>fs_files = [(''/data/docs'', ''a.txt'') \<mapsto> ''old''],
            fs_dirs = {''/data'', ''/data/docs''}\<rparr>"

definition fs_blocked :: filesystem where
  "fs_blocked = \<lparr>fs_files = [(''/data'', ''docs'') \<mapsto> ''x''], fs_dirs = {''/data''}\<rparr>"

definition raw_request :: "io_event list \<Rightarrow> upload_request" where
  "raw_request es = \<lparr>up_content_type = Some ''text/plain'', up_stream = es, up_form = Inr None\<rparr>"

definition multipart_request :: "io_event list \<Rightarrow> upload_request" where
  "multipart_request es =
     \<lparr>up_content_type = Some ''multipart/form-data; boundary=x'', up_stream = [],
      up_form = Inr (Some \<lparr>mf_content_type = Some ''image/png'', mf_reads = es\<rparr>)\<rparr>"

definition tmp_ex :: path where
  "tmp_ex = (''/data/docs'', ''tmpx1.tmp'')"

lemmas storage_ex_defs = storage_ex_def fs_ex_def fs_blocked_def raw_request_def
  multipart_request_def tmp_ex_def upload_file_def
  receive_body_def finish_upload_def safe_join_def path_exists_def is_multipart_def path_str_def
  octet_stream_def guess_or_default_def upload_target_def upload_admitted_def
  written_chunks_def body_complete_def body_written_def run_ops_def Let_def

theorem C7_upload_atomic_write_witness:
  "upload_file storage_ex fs_ex ''docs'' ''a.txt'' (raw_request [Chunk ''he'', Chunk ''llo''])
       (Inr ''tmpx1.tmp'')
     = (Inr \<lparr>fm_name = ''a.txt'', fm_path = ''a.txt'', fm_size = 5, fm_content_type = ''text/plain''\<rparr>,
        [Makedirs ''/data/docs'', Create tmp_ex, Write tmp_ex ''he'', Write tmp_ex ''llo'',
         Replace tmp_ex (''/data/docs'', ''a.txt'')])
   \<and> fs_files (run_ops fs_ex
        [Makedirs ''/data/docs'', Create tmp_ex, Write tmp_ex ''he'', Write tmp_ex ''llo'',
         Replace tmp_ex (''/data/docs'', ''a.txt'')]) (''/data/docs'', ''a.txt'') = Some ''hello''
   \<and> upload_file storage_ex fs_ex ''docs'' ''a.txt''
        (multipart_request [Chunk ''PN'', Chunk ''G'', Chunk []]) (Inr ''tmpx1.tmp'')
     = (Inr \<lparr>fm_name = ''a.txt'', fm_path = ''a.txt'', fm_size = 3, fm_content_type = ''image/png''\<rparr>,
        [Makedirs ''/data/docs'', Create tmp_ex, Write tmp_ex ''PN'', Write tmp_ex ''G'',
         Replace tmp_ex (''/data/docs'', ''a.txt'')])
   \<and> fs_files (run_ops fs_ex
        [Makedirs ''/data/docs'', Create tmp_ex, Write tmp_ex ''PN'', Write tmp_ex ''G'',
         Replace tmp_ex (''/data/docs'', ''a.txt'')]) (''/data/docs'', ''a.txt'') = Some ''PNG''
   \<and> upload_file storage_ex fs_ex ''docs'' ''a.txt''
        (raw_request [Chunk ''he'', Io_error ''client disconnected'']) (Inr ''tmpx1.tmp'')
     = (Inl (HTTPException 500 ''Upload failed: client disconnected''),
        [Makedirs ''/data/docs'', Create tmp_ex, Write tmp_ex ''he'', Unlink tmp_ex])
   \<and> fs_files (run_ops fs_ex
        [Makedirs ''/data/docs'', Create tmp_ex, Write tmp_ex ''he'', Unlink tmp_ex])
       = fs_files fs_ex
   \<and> upload_file storage_ex fs_ex ''docs'' ''a.txt'' (multipart_request [Chunk []])
        (Inr ''tmpx1.tmp'')
     = (Inl (HTTPException 422 ''File cannot be empty''),
        [Makedirs ''/data/docs'', Create tmp_ex, Unlink tmp_ex])
   \<and> upload_file storage_ex fs_blocked ''docs'' ''a.txt'' (raw_request [Chunk ''he''])
        (Inr ''tmpx1.tmp'')
     = (Inl (OSError ''File exists''), [])"
proof -
  let ?raw = "raw_request [Chunk ''he'', Chunk ''llo'']"
  let ?mp = "multipart_request [Chunk ''PN'', Chunk ''G'', Chunk []]"
  let ?bad = "raw_request [Chunk ''he'', Io_error ''client disconnected'']"
  let ?empty = "multipart_request [Chunk []]"
  have u1: "upload_file storage_ex fs_ex ''docs'' ''a.txt'' ?raw (Inr ''tmpx1.tmp'')
     = (Inr \<lparr>fm_name = ''a.txt'', fm_path = ''a.txt'', fm_size = 5, fm_content_type = ''text/plain''\<rparr>,
        [Makedirs ''/data/docs'', Create tmp_ex, Write tmp_ex ''he'', Write tmp_ex ''llo'',
         Replace tmp_ex (''/data/docs'', ''a.txt'')])"
    by (simp add: storage_ex_defs)
  have u2: "upload_file storage_ex fs_ex ''docs'' ''a.txt'' ?mp (Inr ''tmpx1.tmp'')
     = (Inr \<lparr>fm_name = ''a.txt'', fm_path = ''a.txt'', fm_size = 3, fm_content_type = ''image/png''\<rparr>,
        [Makedirs ''/data/docs'', Create tmp_ex, Write tmp_ex ''PN'', Write tmp_ex ''G'',
         Replace tmp_ex (''/data/docs'', ''a.txt'')])"
    by (simp add: storage_ex_defs)
  have u3: "upload_file storage_ex fs_ex ''docs'' ''a.txt'' ?bad (Inr ''tmpx1.tmp'')
     = (Inl (HTTPException 500 ''Upload failed: client disconnected''),
        [Makedirs ''/data/docs'', Create tmp_ex, Write tmp_ex ''he'', Unlink tmp_ex])"
    by (simp add: storage_ex_defs)
  have u4: "upload_file storage_ex fs_ex ''docs'' ''a.txt'' ?empty (Inr ''tmpx1.tmp'')
     = (Inl (HTTPException 422 ''File cannot be empty''),
        [Makedirs ''/data/docs'', Create tmp_ex, Unlink tmp_ex])"
    by (simp add: storage_ex_defs)
  have u5: "upload_file storage_ex fs_blocked ''docs'' ''a.txt'' (raw_request [Chunk ''he''])
        (Inr ''tmpx1.tmp'')
     = (Inl (OSError ''File exists''), [])"
    by (simp add: storage_ex_defs)
  have fresh: "\<forall>name. (Inr ''tmpx1.tmp'' :: string + string) = Inr name
      \<longrightarrow> (fst (upload_target storage_ex ''docs'' ''a.txt''), name) \<notin> dom (fs_files fs_ex)"
    by (simp add: storage_ex_defs)
  have t: "upload_target storage_ex ''docs'' ''a.txt'' = (''/data/docs'', ''a.txt'')"
    by (simp add: storage_ex_defs)
  have w: "concat (written_chunks ?raw) = ''hello''" "concat (written_chunks ?mp) = ''PNG''"
    by (simp_all add: storage_ex_defs)
  have "\<exists>name. (Inr ''tmpx1.tmp'' :: string + string) = Inr name
      \<and> fs_files (run_ops fs_ex
          [Makedirs ''/data/docs'', Create tmp_ex, Write tmp_ex ''he'', Write tmp_ex ''llo'',
           Replace tmp_ex (''/data/docs'', ''a.txt'')])
        = ((fs_files fs_ex)((fst (upload_target storage_ex ''docs'' ''a.txt''), name) := None))
            (upload_target storage_ex ''docs'' ''a.txt'' \<mapsto> concat (written_chunks ?raw))"
    using C7_upload_atomic_write [OF u1 fresh] by blast
  then have r1: "fs_files (run_ops fs_ex
        [Makedirs ''/data/docs'', Create tmp_ex, Write tmp_ex ''he'', Write tmp_ex ''llo'',
         Replace tmp_ex (''/data/docs'', ''a.txt'')]) (''/data/docs'', ''a.txt'') = Some ''hello''"
    by (auto simp: t w)
  have "\<exists>name. (Inr ''tmpx1.tmp'' :: string + string) = Inr name
      \<and> fs_files (run_ops fs_ex
          [Makedirs ''/data/docs'', Create tmp_ex, Write tmp_ex ''PN'', Write tmp_ex ''G'',
           Replace tmp_ex (''/data/docs'', ''a.txt'')])
        = ((fs_files fs_ex)((fst (upload_target storage_ex ''docs'' ''a.txt''), name) := None))
            (upload_target storage_ex ''docs'' ''a.txt'' \<mapsto> concat (written_chunks ?mp))"
    using C7_upload_atomic_write [OF u2 fresh] by blast
  then have r2: "fs_files (run_ops fs_ex
        [Makedirs ''/data/docs'', Create tmp_ex, Write tmp_ex ''PN'', Write tmp_ex ''G'',
         Replace tmp_ex (''/data/docs'', ''a.txt'')]) (''/data/docs'', ''a.txt'') = Some ''PNG''"
    by (auto simp: t w)
  from C7_upload_atomic_write [OF u3 fresh]
  have r3: "fs_files (run_ops fs_ex
        [Makedirs ''/data/docs'', Create tmp_ex, Write tmp_ex ''he'', Unlink tmp_ex])
       = fs_files fs_ex"
    by blast
  from u1 u2 u3 u4 u5 r1 r2 r3 show ?thesis by simp
qed

section \<open>The SQL console's statement splitter (backend/endpoints/sql.py)\<close>

text \<open>\<open>s.find(sub, start)\<close>: the lowest index at or after \<open>start\<close> where \<open>sub\<close> occurs in
  \<open>s\<close>, or \<open>None\<close> for Python's \<open>-1\<close>. \<open>find_sub\<close> searches from the head of its argument.\<close>

fun find_sub :: "string \<Rightarrow> string \<Rightarrow> nat option" where
  "find_sub [] sub = (if sub = [] then Some 0 else None)"
| "find_sub (c # cs) sub =
     (if startswith (c # cs) sub then Some 0 else map_option Suc (find_sub cs sub))"

definition py_find :: "string \<Rightarrow> string \<Rightarrow> nat \<Rightarrow> nat option" where
  "py_find s sub start =
     (if length s < start then None
      else map_option (\<lambda>j. start + j) (find_sub (drop start s) sub))"

text \<open>The slice \<open>s[i:j]\<close> for \<open>0 \<le> i\<close>, \<open>0 \<le> j\<close>.\<close>

definition slice :: "string \<Rightarrow> nat \<Rightarrow> nat \<Rightarrow> string" where
  "slice s i j = take (j - i) (drop i s)"

lemma py_find_ge: "py_find s sub start = Some j \<Longrightarrow> start \<le> j"
  by (auto simp: py_find_def split: if_splits)

text \<open>
  The \<open>while\<close> loop of \<open>split_sql_statements\<close>, with its variables as arguments.
  When a dollar sign outside a string has a later dollar sign (\<open>end_idx\<close>) but the tag
  between them does not occur again, the source has already appended the tag to
  \<open>current\<close> and moved \<open>i\<close> to \<open>end_idx + 1\<close>; it then falls through to the chain of tests
  with \<open>char\<close> still the dollar sign, reaches the final \<open>else\<close>, appends \<open>char\<close> once more and
  adds 1 to \<open>i\<close>.
\<close>

function split_loop ::
  "string \<Rightarrow> nat \<Rightarrow> string \<Rightarrow> bool \<Rightarrow> char option \<Rightarrow> string list \<Rightarrow> string list" where
  "split_loop query i current in_string string_char statements =
     (if \<not> i < length query then
        (let stmt = strip current
         in if stmt \<noteq> [] then statements @ [stmt] else statements)
      else
        (let char = query ! i in
         if char = CHR ''$'' \<and> \<not> in_string \<and> py_find query ''$'' (i + 1) \<noteq> None then
           (case py_find query ''$'' (i + 1) of
              None \<Rightarrow> statements
            | Some end_idx \<Rightarrow>
                (let dollar_tag = slice query i (end_idx + 1)
                 in case py_find query dollar_tag (end_idx + 1) of
                      Some close_idx \<Rightarrow>
                        split_loop query (close_idx + length dollar_tag)
                          (current @ dollar_tag
                             @ slice query (end_idx + 1) (close_idx + length dollar_tag))
                          in_string string_char statements
                    | None \<Rightarrow>
                        split_loop query (end_idx + 1 + 1) (current @ dollar_tag @ [char])
                          in_string string_char statements))
         else if (char = CHR 0x27 \<or> char = CHR 0x22) \<and> \<not> in_string then
           split_loop query (i + 1) (current @ [char]) True (Some char) statements
         else if Some char = string_char \<and> in_string then
           (if i + 1 < length query \<and> Some (query ! (i + 1)) = string_char then
              split_loop query (i + 2) (current @ [char, char]) in_string string_char statements
            else split_loop query (i + 1) (current @ [char]) False None statements)
         else if char = CHR '';'' \<and> \<not> in_string then
           (let stmt = strip current
            in split_loop query (i + 1) []  in_string string_char
                 (if stmt \<noteq> [] then statements @ [stmt] else statements))
         else split_loop query (i + 1) (current @ [char]) in_string string_char statements))"
  by pat_completeness auto
termination
  by (relation "measure (\<lambda>(query, i, current, in_string, string_char, statements).
                    length query - i)")
     (auto dest!: py_find_ge)

definition split_sql_statements :: "string \<Rightarrow> string list" where
  "split_sql_statements query = split_loop query 0 [] False None []"

text \<open>
  Claim C4 against the code. In \<open>SELECT a$b, $$x;y$$\<close> the only semicolon lies inside the
  dollar-quoted string \<open>$$x;y$$\<close> (the first dollar sign belongs to the identifier \<open>a$b\<close>).
  The splitter takes \<open>$b, $\<close> for an opening tag, finds no second occurrence of it,
  appends a dollar sign of its own, skips one character of the input and goes on outside
  any quoted region: it splits at that semicolon, and neither result is a piece of the
  input. The same text with the identifier \<open>ab\<close> is returned whole.
\<close>

theorem C4_split_inside_dollar_quoted_string:
  "split_sql_statements ''SELECT a$b, $$x;y$$'' = [''SELECT a$b, $$x'', ''y$$$'']
   \<and> split_sql_statements ''SELECT ab, $$x;y$$'' = [''SELECT ab, $$x;y$$'']"
  by code_simp


end
